theory Spec2Isabelle
  imports Complex_Main "HOL-Library.Multiset"
begin

section \<open>JavaScript numbers\<close>

text \<open>
  The source is TypeScript; every numeric field and local has the type \<open>number\<close>, an
  IEEE 754 binary64 value. A \<open>number\<close> is modelled as either \<open>NaN\<close> or a finite value
  \<open>Num r\<close> with \<open>r\<close> a real (the two infinities are left out). \<open>NaN\<close> is kept,
  because it decides control flow: every comparison with \<open>NaN\<close> is false, every
  arithmetic operation on \<open>NaN\<close> is \<open>NaN\<close>, and \<open>Math.max\<close>/\<open>Math.min\<close> return
  \<open>NaN\<close> as soon as one argument is.

  Arithmetic comes in two forms. The operations \<open>jplus\<close>, \<open>jminus\<close>, \<open>jtimes\<close> and
  \<open>jdiv\<close> of this section are exact; they serve the order and sign properties and the
  tail-swap rescoring, which the specification states in exact arithmetic. The
  operations of the next section round every result to binary64 as the engine does;
  the two scoring functions are modelled with them (suffix \<open>_f64\<close>) wherever the
  returned value itself is at stake. Comparisons, \<open>Math.max\<close> and \<open>Math.min\<close> do not
  round.
\<close>

datatype jsnum = NaN | Num real

fun jplus :: "jsnum \<Rightarrow> jsnum \<Rightarrow> jsnum" where
  "jplus (Num a) (Num b) = Num (a + b)"
| "jplus _ _ = NaN"

fun jminus :: "jsnum \<Rightarrow> jsnum \<Rightarrow> jsnum" where
  "jminus (Num a) (Num b) = Num (a - b)"
| "jminus _ _ = NaN"

fun jtimes :: "jsnum \<Rightarrow> jsnum \<Rightarrow> jsnum" where
  "jtimes (Num a) (Num b) = Num (a * b)"
| "jtimes _ _ = NaN"

text \<open>Division; the source only divides by non-zero literals.\<close>

fun jdiv :: "jsnum \<Rightarrow> jsnum \<Rightarrow> jsnum" where
  "jdiv (Num a) (Num b) = Num (a / b)"
| "jdiv _ _ = NaN"

fun jgt :: "jsnum \<Rightarrow> jsnum \<Rightarrow> bool" where
  "jgt (Num a) (Num b) = (a > b)"
| "jgt _ _ = False"

fun jlt :: "jsnum \<Rightarrow> jsnum \<Rightarrow> bool" where
  "jlt (Num a) (Num b) = (a < b)"
| "jlt _ _ = False"

fun jge :: "jsnum \<Rightarrow> jsnum \<Rightarrow> bool" where
  "jge (Num a) (Num b) = (a \<ge> b)"
| "jge _ _ = False"

fun jle :: "jsnum \<Rightarrow> jsnum \<Rightarrow> bool" where
  "jle (Num a) (Num b) = (a \<le> b)"
| "jle _ _ = False"

fun Math_max :: "jsnum \<Rightarrow> jsnum \<Rightarrow> jsnum" where
  "Math_max (Num a) (Num b) = Num (max a b)"
| "Math_max _ _ = NaN"

fun Math_min :: "jsnum \<Rightarrow> jsnum \<Rightarrow> jsnum" where
  "Math_min (Num a) (Num b) = Num (min a b)"
| "Math_min _ _ = NaN"

section \<open>Binary64 arithmetic\<close>

text \<open>
  A binary64 number has 53 significant bits; below \<open>2 powi (- 1022)\<close> the spacing stays
  that of the smallest normal numbers (subnormals). \<open>f64_round\<close> rounds a real to the
  nearest such number, ties to the even significand: \<open>expo x\<close> is the binary exponent
  of \<open>x\<close>, \<open>q\<close> the exponent of the last place and \<open>rhe\<close> rounds to the nearest
  integer, halves to the even one. Overflow to infinity is not modelled.
\<close>

definition rhe :: "real \<Rightarrow> int" where
  "rhe r = (let f = \<lfloor>r\<rfloor>; d = r - of_int f
            in if d < 1/2 then f else if 1/2 < d then f + 1
               else if even f then f else f + 1)"

definition expo :: "real \<Rightarrow> int" where
  "expo x = \<lfloor>log 2 \<bar>x\<bar>\<rfloor>"

definition f64_round :: "real \<Rightarrow> real" where
  "f64_round x =
     (if x = 0 then 0
      else (let q = max (expo x) (- 1022) - 52
            in of_int (rhe (x / 2 powi q)) * 2 powi q))"

text \<open>
  A decimal literal of the source denotes the nearest binary64 number. Integer literals
  of the source are written \<open>Num n\<close>: they are binary64 numbers as they stand.
\<close>

definition f64 :: "real \<Rightarrow> jsnum" where
  "f64 x = Num (f64_round x)"

fun f64_add :: "jsnum \<Rightarrow> jsnum \<Rightarrow> jsnum" where
  "f64_add (Num a) (Num b) = Num (f64_round (a + b))"
| "f64_add _ _ = NaN"

fun f64_sub :: "jsnum \<Rightarrow> jsnum \<Rightarrow> jsnum" where
  "f64_sub (Num a) (Num b) = Num (f64_round (a - b))"
| "f64_sub _ _ = NaN"

fun f64_mul :: "jsnum \<Rightarrow> jsnum \<Rightarrow> jsnum" where
  "f64_mul (Num a) (Num b) = Num (f64_round (a * b))"
| "f64_mul _ _ = NaN"

text \<open>Division; the source only divides by non-zero literals.\<close>

fun f64_div :: "jsnum \<Rightarrow> jsnum \<Rightarrow> jsnum" where
  "f64_div (Num a) (Num b) = Num (f64_round (a / b))"
| "f64_div _ _ = NaN"

section \<open>Risk-level classifiers\<close>

text \<open>
  \<open>RiskBadge\<close> (components/RiskBadge.tsx) computes the label it renders:
  \<^verbatim>\<open>
  let riskLabel = 'LOW';
  if (score > 0.6) { riskLabel = 'HIGH'; }
  else if (score >= 0.25) { riskLabel = 'MEDIUM'; }
  \<close>
\<close>

definition RiskBadge_riskLabel :: "jsnum \<Rightarrow> string" where
  "RiskBadge_riskLabel score =
     (if jgt score (Num 0.6) then ''HIGH''
      else if jge score (Num 0.25) then ''MEDIUM''
      else ''LOW'')"

text \<open>
  \<open>calculateRiskLevel\<close> (pages/DelayRiskPage.tsx):
  \<^verbatim>\<open>
  if (score < 0.25) return 'low';
  if (score <= 0.6) return 'medium';
  return 'high';
  \<close>
\<close>

definition calculateRiskLevel :: "jsnum \<Rightarrow> string" where
  "calculateRiskLevel score =
     (if jlt score (Num 0.25) then ''low''
      else if jle score (Num 0.6) then ''medium''
      else ''high'')"

text \<open>
  The canonical rule of the specification (section 4.2), on a finite score:
  LOW if \<open>score < 0.25\<close>, MEDIUM if \<open>0.25 \<le> score \<le> 0.6\<close>, HIGH if \<open>score > 0.6\<close>;
  and the name each call site gives to a level.
\<close>

datatype level = LOW | MEDIUM | HIGH

definition spec_level :: "real \<Rightarrow> level" where
  "spec_level x = (if x < 0.25 then LOW else if x \<le> 0.6 then MEDIUM else HIGH)"

fun badgeName :: "level \<Rightarrow> string" where
  "badgeName LOW = ''LOW''"
| "badgeName MEDIUM = ''MEDIUM''"
| "badgeName HIGH = ''HIGH''"

fun pageName :: "level \<Rightarrow> string" where
  "pageName LOW = ''low''"
| "pageName MEDIUM = ''medium''"
| "pageName HIGH = ''high''"

section \<open>Built-in functions of the host language\<close>

text \<open>
  Three built-ins of JavaScript are used by the engine and are not part of the
  repository: \<open>Number(s)\<close> on a string, the conversion of a number to a string in a
  template literal, and \<open>new Date(s).getTime()\<close>. They are parameters of the model;
  every theorem holds for whatever functions are supplied.
\<close>

record builtins =
  jsNumber :: "string \<Rightarrow> jsnum"
  jsToString :: "jsnum \<Rightarrow> string"
  jsDateTime :: "string \<Rightarrow> jsnum"

section \<open>Data model (types.ts)\<close>

datatype weather = CLEAR | RAIN | SNOW | STORM | FOG

datatype status = ON_TIME | DELAYED | CANCELLED

datatype severity = WARNING | ERROR

record Aircraft =
  tailNumber :: string
  type :: string
  ageYears :: jsnum
  cycles :: jsnum
  lastMaintenance :: string
  snagCount :: jsnum

record FlightLeg =
  id_leg :: string
  flightNumber :: string
  origin :: string
  destination :: string
  schedDep :: string
  schedArr :: string
  status :: status

record RotationConflict =
  legId :: string
  reason :: string
  severity :: severity

record DelayInput =
  schedDepTime :: string
  prevDelayMinutes :: jsnum
  aircraftType :: string
  weatherCondition :: weather

section \<open>parseTime\<close>

text \<open>\<open>timeStr.split(':')\<close>: the pieces between colons, at least one piece.\<close>

fun split_colon :: "string \<Rightarrow> string list" where
  "split_colon [] = [[]]"
| "split_colon (c # cs) =
     (if c = CHR '':'' then [] # split_colon cs
      else (case split_colon cs of
              w # ws \<Rightarrow> (c # w) # ws
            | [] \<Rightarrow> [[c]]))"

text \<open>
  \<^verbatim>\<open>
  const [hh, mm] = timeStr.split(':').map(Number);
  return hh * 60 + mm;
  \<close>
  With a single piece \<open>mm\<close> is \<open>undefined\<close> and the sum is \<open>NaN\<close>; pieces after the
  second are ignored.
\<close>

definition parseTime :: "builtins \<Rightarrow> string \<Rightarrow> jsnum" where
  "parseTime js timeStr =
     (case map (jsNumber js) (split_colon timeStr) of
        hh # mm # _ \<Rightarrow> jplus (jtimes hh (Num 60)) mm
      | _ \<Rightarrow> NaN)"

text \<open>The same function with the engine's rounding.\<close>

definition parseTime_f64 :: "builtins \<Rightarrow> string \<Rightarrow> jsnum" where
  "parseTime_f64 js timeStr =
     (case map (jsNumber js) (split_colon timeStr) of
        hh # mm # _ \<Rightarrow> f64_add (f64_mul hh (Num 60)) mm
      | _ \<Rightarrow> NaN)"

section \<open>calculateDelayRisk\<close>

text \<open>
  First with exact sums (the form used for the order property), then, as
  \<open>calculateDelayRisk_f64\<close>, with every \<open>+=\<close> and \<open>-=\<close> rounded to binary64 and every
  decimal literal read as the nearest binary64 number: this is the value the function
  returns.
\<close>

definition calculateDelayRisk :: "builtins \<Rightarrow> DelayInput \<Rightarrow> jsnum" where
  "calculateDelayRisk js input =
     (let score = Num 0.1;
          minutes = parseTime js (schedDepTime input);
          score = (if jgt minutes (Num 1000) then jplus score (Num 0.2)
                   else if jgt minutes (Num 720) then jplus score (Num 0.1)
                   else score);
          score = (if jgt (prevDelayMinutes input) (Num 60) then jplus score (Num 0.4)
                   else if jgt (prevDelayMinutes input) (Num 15) then jplus score (Num 0.2)
                   else score);
          score = (case weatherCondition input of
                     STORM \<Rightarrow> jplus score (Num 0.5)
                   | SNOW \<Rightarrow> jplus score (Num 0.4)
                   | FOG \<Rightarrow> jplus score (Num 0.3)
                   | RAIN \<Rightarrow> jplus score (Num 0.1)
                   | _ \<Rightarrow> score);
          score = (if aircraftType input = ''B737-MAX'' \<or> aircraftType input = ''A321neo''
                   then jminus score (Num 0.05)
                   else score)
      in Math_min (Math_max score (Num 0)) (Num 0.99))"

definition calculateDelayRisk_f64 :: "builtins \<Rightarrow> DelayInput \<Rightarrow> jsnum" where
  "calculateDelayRisk_f64 js input =
     (let score = f64 0.1;
          minutes = parseTime_f64 js (schedDepTime input);
          score = (if jgt minutes (Num 1000) then f64_add score (f64 0.2)
                   else if jgt minutes (Num 720) then f64_add score (f64 0.1)
                   else score);
          score = (if jgt (prevDelayMinutes input) (Num 60) then f64_add score (f64 0.4)
                   else if jgt (prevDelayMinutes input) (Num 15) then f64_add score (f64 0.2)
                   else score);
          score = (case weatherCondition input of
                     STORM \<Rightarrow> f64_add score (f64 0.5)
                   | SNOW \<Rightarrow> f64_add score (f64 0.4)
                   | FOG \<Rightarrow> f64_add score (f64 0.3)
                   | RAIN \<Rightarrow> f64_add score (f64 0.1)
                   | _ \<Rightarrow> score);
          score = (if aircraftType input = ''B737-MAX'' \<or> aircraftType input = ''A321neo''
                   then f64_sub score (f64 0.05)
                   else score)
      in Math_min (Math_max score (Num 0)) (f64 0.99))"

text \<open>
  Well-formed clock strings of the specification (section 4.1): \<open>HH:MM\<close> with two
  decimal digits each, \<open>HH\<close> in 0..23 and \<open>MM\<close> in 0..59, and their minute of day.
\<close>

definition isDigit :: "char \<Rightarrow> bool" where
  "isDigit c = (48 \<le> (of_char c :: nat) \<and> (of_char c :: nat) \<le> 57)"

definition digitVal :: "char \<Rightarrow> nat" where
  "digitVal c = of_char c - 48"

definition twoDigits :: "char \<Rightarrow> char \<Rightarrow> nat" where
  "twoDigits a b = 10 * digitVal a + digitVal b"

definition wellFormedTime :: "string \<Rightarrow> bool" where
  "wellFormedTime s =
     (case s of
        [a, b, c, d, e] \<Rightarrow>
          isDigit a \<and> isDigit b \<and> c = CHR '':'' \<and> isDigit d \<and> isDigit e \<and>
          twoDigits a b \<le> 23 \<and> twoDigits d e \<le> 59
      | _ \<Rightarrow> False)"

definition minuteOfDay :: "string \<Rightarrow> nat" where
  "minuteOfDay s =
     (case s of
        [a, b, c, d, e] \<Rightarrow> twoDigits a b * 60 + twoDigits d e
      | _ \<Rightarrow> 0)"

text \<open>
  What JavaScript's \<open>Number\<close> does on a string of two decimal digits: it reads it in
  base ten.
\<close>

definition readsTwoDigits :: "builtins \<Rightarrow> bool" where
  "readsTwoDigits js =
     (\<forall>a b. isDigit a \<and> isDigit b \<longrightarrow> jsNumber js [a, b] = Num (real (twoDigits a b)))"

text \<open>The scoring rule of the specification (section 4.2, steps 1 to 6).\<close>

fun weatherPenalty :: "weather \<Rightarrow> real" where
  "weatherPenalty STORM = 0.5"
| "weatherPenalty SNOW = 0.4"
| "weatherPenalty FOG = 0.3"
| "weatherPenalty RAIN = 0.1"
| "weatherPenalty CLEAR = 0"

definition spec_delayRisk :: "real \<Rightarrow> jsnum \<Rightarrow> weather \<Rightarrow> string \<Rightarrow> real" where
  "spec_delayRisk minute delay w t =
     min (max (0.1
               + (if minute > 1000 then 0.2 else if minute > 720 then 0.1 else 0)
               + (if jgt delay (Num 60) then 0.4 else if jgt delay (Num 15) then 0.2 else 0)
               + weatherPenalty w
               - (if t = ''B737-MAX'' \<or> t = ''A321neo'' then 0.05 else 0)) 0) 0.99"

text \<open>The three penalties and the type adjustment, as functions of their own.\<close>

definition timePenalty :: "jsnum \<Rightarrow> real" where
  "timePenalty m = (if jgt m (Num 1000) then 0.2 else if jgt m (Num 720) then 0.1 else 0)"

definition delayPenalty :: "jsnum \<Rightarrow> real" where
  "delayPenalty d = (if jgt d (Num 60) then 0.4 else if jgt d (Num 15) then 0.2 else 0)"

definition typeAdjust :: "string \<Rightarrow> real" where
  "typeAdjust t = (if t = ''B737-MAX'' \<or> t = ''A321neo'' then 0.05 else 0)"

text \<open>
  The same rule accumulated in binary64, in the order of the specification's steps: the
  base, then each penalty that applies, then the type adjustment, then the clamp.
\<close>

definition spec_delayRisk_f64 :: "real \<Rightarrow> jsnum \<Rightarrow> weather \<Rightarrow> string \<Rightarrow> real" where
  "spec_delayRisk_f64 minute delay w t =
     (let s = f64_round 0.1;
          s = (if minute > 1000 then f64_round (s + f64_round 0.2)
               else if minute > 720 then f64_round (s + f64_round 0.1) else s);
          s = (if jgt delay (Num 60) then f64_round (s + f64_round 0.4)
               else if jgt delay (Num 15) then f64_round (s + f64_round 0.2) else s);
          s = (if w = CLEAR then s else f64_round (s + f64_round (weatherPenalty w)));
          s = (if t = ''B737-MAX'' \<or> t = ''A321neo'' then f64_round (s - f64_round 0.05)
               else s)
      in min (max s 0) (f64_round 0.99))"

section \<open>calculateMaintenanceRisk\<close>

text \<open>
  Again first with exact arithmetic (the base risks of the tail-swap rescoring), then,
  as \<open>calculateMaintenanceRisk_f64\<close>, with every operation rounded to binary64: the
  value the function returns.
\<close>

text \<open>
  \<open>new Date().getTime()\<close>, the wall-clock time in milliseconds, is the parameter
  \<open>now\<close>; it is always a finite number.
\<close>

definition calculateMaintenanceRisk :: "builtins \<Rightarrow> real \<Rightarrow> Aircraft \<Rightarrow> jsnum" where
  "calculateMaintenanceRisk js now ac =
     (let risk = Num 0.05;
          risk = jplus risk (jtimes (ageYears ac) (Num 0.015));
          risk = jplus risk (jtimes (jdiv (cycles ac) (Num 10000)) (Num 0.1));
          risk = jplus risk (jtimes (snagCount ac) (Num 0.08));
          daysSinceMaint =
            jdiv (jminus (Num now) (jsDateTime js (lastMaintenance ac)))
                 (jtimes (jtimes (Num 1000) (Num 3600)) (Num 24));
          risk = (if jgt daysSinceMaint (Num 30) then jplus risk (Num 0.15) else risk)
      in Math_min (Math_max risk (Num 0)) (Num 1))"

definition calculateMaintenanceRisk_f64 :: "builtins \<Rightarrow> real \<Rightarrow> Aircraft \<Rightarrow> jsnum" where
  "calculateMaintenanceRisk_f64 js now ac =
     (let risk = f64 0.05;
          risk = f64_add risk (f64_mul (ageYears ac) (f64 0.015));
          risk = f64_add risk (f64_mul (f64_div (cycles ac) (Num 10000)) (f64 0.1));
          risk = f64_add risk (f64_mul (snagCount ac) (f64 0.08));
          daysSinceMaint =
            f64_div (f64_sub (Num now) (jsDateTime js (lastMaintenance ac)))
                    (f64_mul (f64_mul (Num 1000) (Num 3600)) (Num 24));
          risk = (if jgt daysSinceMaint (Num 30) then f64_add risk (f64 0.15) else risk)
      in Math_min (Math_max risk (Num 0)) (Num 1))"

text \<open>
  The rule of the specification (section 4.2) on finite age, cycles and snag count;
  \<open>days\<close> is the number of days since the last maintenance, \<open>NaN\<close> when the date
  does not parse.
\<close>

definition spec_daysSince :: "builtins \<Rightarrow> real \<Rightarrow> Aircraft \<Rightarrow> jsnum" where
  "spec_daysSince js now ac =
     (case jsDateTime js (lastMaintenance ac) of
        Num t \<Rightarrow> Num ((now - t) / 86400000)
      | NaN \<Rightarrow> NaN)"

definition spec_maintenanceRisk :: "real \<Rightarrow> real \<Rightarrow> real \<Rightarrow> jsnum \<Rightarrow> real" where
  "spec_maintenanceRisk age cyc snags days =
     min (max (0.05 + age * 0.015 + (cyc / 10000) * 0.1 + snags * 0.08
               + (if jgt days (Num 30) then 0.15 else 0)) 0) 1"

text \<open>The same rule with every operation rounded to binary64.\<close>

definition spec_daysSince_f64 :: "builtins \<Rightarrow> real \<Rightarrow> Aircraft \<Rightarrow> jsnum" where
  "spec_daysSince_f64 js now ac =
     (case jsDateTime js (lastMaintenance ac) of
        Num t \<Rightarrow> Num (f64_round (f64_round (now - t) / 86400000))
      | NaN \<Rightarrow> NaN)"

definition spec_maintenanceRisk_f64 :: "real \<Rightarrow> real \<Rightarrow> real \<Rightarrow> jsnum \<Rightarrow> real" where
  "spec_maintenanceRisk_f64 age cyc snags days =
     (let r = f64_round 0.05;
          r = f64_round (r + f64_round (age * f64_round 0.015));
          r = f64_round (r + f64_round (f64_round (cyc / 10000) * f64_round 0.1));
          r = f64_round (r + f64_round (snags * f64_round 0.08));
          r = (if jgt days (Num 30) then f64_round (r + f64_round 0.15) else r)
      in min (max r 0) 1)"

section \<open>Arrays of legs\<close>

text \<open>
  An array of legs is a mutable object reached through a reference. The store maps
  references to array contents; references below \<open>nextRef\<close> are in use. The spread
  expression \<open>[...legs]\<close> allocates a new array with the same elements, and
  \<open>sort\<close> reorders the array it is called on.
\<close>

record store =
  arrays :: "nat \<Rightarrow> FlightLeg list"
  nextRef :: nat

definition spread :: "store \<Rightarrow> nat \<Rightarrow> nat \<times> store" where
  "spread st r =
     (nextRef st,
      st\<lparr>arrays := (arrays st)(nextRef st := arrays st r), nextRef := Suc (nextRef st)\<rparr>)"

text \<open>
  \<open>Array.prototype.sort\<close> with a comparator is a stable sort: an element moves behind
  another one only when the comparator returns a number greater than zero for the
  pair (\<open>NaN\<close> counts as zero). It is modelled as a stable insertion sort. With a
  consistent comparator every stable sort gives this order; when departure times are
  \<open>NaN\<close> the comparator is not consistent and the language leaves the order to the
  implementation, of which this is one; the order of the sorted copy is therefore
  stated below for legs with well-formed times only.
\<close>

fun insertBy :: "('a \<Rightarrow> 'a \<Rightarrow> jsnum) \<Rightarrow> 'a \<Rightarrow> 'a list \<Rightarrow> 'a list" where
  "insertBy cmp x [] = [x]"
| "insertBy cmp x (y # ys) =
     (if jgt (cmp x y) (Num 0) then y # insertBy cmp x ys else x # y # ys)"

definition Array_sort :: "('a \<Rightarrow> 'a \<Rightarrow> jsnum) \<Rightarrow> 'a list \<Rightarrow> 'a list" where
  "Array_sort cmp xs = foldr (insertBy cmp) xs []"

definition sort_in_place :: "(FlightLeg \<Rightarrow> FlightLeg \<Rightarrow> jsnum) \<Rightarrow> nat \<Rightarrow> store \<Rightarrow> store" where
  "sort_in_place cmp r st = st\<lparr>arrays := (arrays st)(r := Array_sort cmp (arrays st r))\<rparr>"

text \<open>
  \<open>xs[i]\<close> is \<open>undefined\<close> out of range, and reading a field of \<open>undefined\<close>
  throws a TypeError.
\<close>

datatype fault = TypeError

definition index :: "'a list \<Rightarrow> nat \<Rightarrow> 'a option" where
  "index xs i = (if i < length xs then Some (xs ! i) else None)"

section \<open>validateRotation\<close>

definition MCT_MINUTES :: jsnum where
  "MCT_MINUTES = Num 45"

record ValidationResult =
  isValid :: bool
  conflicts :: "RotationConflict list"

definition mismatchConflict :: "FlightLeg \<Rightarrow> FlightLeg \<Rightarrow> RotationConflict" where
  "mismatchConflict current next =
     \<lparr>legId = id_leg next,
      reason = ''Location mismatch: Arr '' @ destination current @ '' != Dep '' @ origin next,
      severity = ERROR\<rparr>"

definition overlapConflict :: "FlightLeg \<Rightarrow> FlightLeg \<Rightarrow> RotationConflict" where
  "overlapConflict current next =
     \<lparr>legId = id_leg next,
      reason = ''Schedule Overlap: Arrives '' @ schedArr current @ '', Departs '' @ schedDep next,
      severity = ERROR\<rparr>"

definition mctConflict :: "builtins \<Rightarrow> jsnum \<Rightarrow> FlightLeg \<Rightarrow> RotationConflict" where
  "mctConflict js gap next =
     \<lparr>legId = id_leg next,
      reason = ''MCT Violation: Only '' @ jsToString js gap @ '' min available (Req: ''
                 @ jsToString js MCT_MINUTES @ '')'',
      severity = WARNING\<rparr>"

text \<open>
  The loop \<open>for (let i = 0; i < sortedLegs.length - 1; i++)\<close>, with the list of
  conflicts pushed so far. The overlap branch ends with \<open>continue\<close>.
\<close>

function validateLoop ::
  "builtins \<Rightarrow> FlightLeg list \<Rightarrow> nat \<Rightarrow> RotationConflict list \<Rightarrow> fault + RotationConflict list"
where
  "validateLoop js sortedLegs i cs =
     (if int i < int (length sortedLegs) - 1 then
        (case (index sortedLegs i, index sortedLegs (i + 1)) of
           (Some current, Some next) \<Rightarrow>
             (let arrTime = parseTime js (schedArr current);
                  nextDepTime = parseTime js (schedDep next);
                  cs1 = (if destination current \<noteq> origin next
                         then cs @ [mismatchConflict current next] else cs)
              in if jgt arrTime nextDepTime
                 then validateLoop js sortedLegs (i + 1) (cs1 @ [overlapConflict current next])
                 else validateLoop js sortedLegs (i + 1)
                        (if jlt (jminus nextDepTime arrTime) MCT_MINUTES
                         then cs1 @ [mctConflict js (jminus nextDepTime arrTime) next]
                         else cs1))
         | _ \<Rightarrow> Inl TypeError)
      else Inr cs)"
  by pat_completeness auto
termination
  by (relation "measure (\<lambda>(js, sortedLegs, i, cs). length sortedLegs - i)") auto

declare validateLoop.simps [simp del]

definition depCompare :: "builtins \<Rightarrow> FlightLeg \<Rightarrow> FlightLeg \<Rightarrow> jsnum" where
  "depCompare js a b = jminus (parseTime js (schedDep a)) (parseTime js (schedDep b))"

definition validateRotation ::
  "builtins \<Rightarrow> store \<Rightarrow> nat \<Rightarrow> fault + (ValidationResult \<times> store)" where
  "validateRotation js st legs =
     (let (sortedLegs, st1) = spread st legs;
          st2 = sort_in_place (depCompare js) sortedLegs st1
      in case validateLoop js (arrays st2 sortedLegs) 0 [] of
           Inl e \<Rightarrow> Inl e
         | Inr cs \<Rightarrow> Inr (\<lparr>isValid = (length cs = 0), conflicts = cs\<rparr>, st2))"

text \<open>
  The rule of the specification (section 4.3, step 2) for one adjacent pair, and the
  adjacent pairs of a list.
\<close>

definition spec_pairConflicts :: "builtins \<Rightarrow> FlightLeg \<times> FlightLeg \<Rightarrow> RotationConflict list" where
  "spec_pairConflicts js p =
     (let current = fst p; next = snd p;
          arr = parseTime js (schedArr current);
          dep = parseTime js (schedDep next);
          overlap = jgt arr dep
      in (if destination current \<noteq> origin next then [mismatchConflict current next] else [])
         @ (if overlap then [overlapConflict current next] else [])
         @ (if \<not> overlap \<and> jlt (jminus dep arr) (Num 45)
            then [mctConflict js (jminus dep arr) next] else []))"

fun adjacentPairs :: "'a list \<Rightarrow> ('a \<times> 'a) list" where
  "adjacentPairs (x # y # ys) = (x, y) # adjacentPairs (y # ys)"
| "adjacentPairs _ = []"

definition spec_conflicts :: "builtins \<Rightarrow> FlightLeg list \<Rightarrow> RotationConflict list" where
  "spec_conflicts js legs =
     concat (map (spec_pairConflicts js) (adjacentPairs (Array_sort (depCompare js) legs)))"

text \<open>
  The same rule in the words of the specification, for legs whose two times are
  well-formed clock strings: the minutes are minutes of the day, and each conflict is
  written out with the identifier it references, its message and its severity.
\<close>

definition wellFormedLeg :: "FlightLeg \<Rightarrow> bool" where
  "wellFormedLeg l = (wellFormedTime (schedDep l) \<and> wellFormedTime (schedArr l))"

definition spec_checkPair :: "builtins \<Rightarrow> FlightLeg \<times> FlightLeg \<Rightarrow> RotationConflict list" where
  "spec_checkPair js p =
     (let current = fst p; next = snd p;
          arr = int (minuteOfDay (schedArr current));
          dep = int (minuteOfDay (schedDep next))
      in (if destination current \<noteq> origin next
          then [\<lparr>legId = id_leg next,
                 reason = ''Location mismatch: Arr '' @ destination current
                          @ '' != Dep '' @ origin next,
                 severity = ERROR\<rparr>]
          else [])
         @ (if arr > dep
            then [\<lparr>legId = id_leg next,
                   reason = ''Schedule Overlap: Arrives '' @ schedArr current
                            @ '', Departs '' @ schedDep next,
                   severity = ERROR\<rparr>]
            else [])
         @ (if \<not> arr > dep \<and> dep - arr < 45
            then [\<lparr>legId = id_leg next,
                   reason = ''MCT Violation: Only '' @ jsToString js (Num (real_of_int (dep - arr)))
                            @ '' min available (Req: '' @ jsToString js (Num 45) @ '')'',
                   severity = WARNING\<rparr>]
            else []))"

definition depMinuteOfDay :: "FlightLeg \<Rightarrow> nat" where
  "depMinuteOfDay l = minuteOfDay (schedDep l)"

text \<open>The value of a number that is not \<open>NaN\<close>.\<close>

fun the_Num :: "jsnum \<Rightarrow> real" where
  "the_Num (Num r) = r"
| "the_Num NaN = 0"

section \<open>optimizeTailSwap\<close>

record SwapScenario =
  aircraftA :: Aircraft
  aircraftB :: Aircraft
  riskScoreA :: jsnum
  riskScoreB :: jsnum
  improvement :: jsnum
  feasible :: bool
  recommendation :: string

text \<open>
  The two calls of \<open>calculateMaintenanceRisk\<close> read the clock one after the other:
  \<open>now1\<close> and \<open>now2\<close>. \<open>legs1\<close> and \<open>legs2\<close> are references to arrays.
\<close>

definition optimizeTailSwap ::
  "builtins \<Rightarrow> real \<Rightarrow> real \<Rightarrow> store \<Rightarrow> Aircraft \<Rightarrow> nat \<Rightarrow> Aircraft \<Rightarrow> nat
     \<Rightarrow> fault + (SwapScenario \<times> store)" where
  "optimizeTailSwap js now1 now2 st ac1 legs1 ac2 legs2 =
     (let baseRisk1 = calculateMaintenanceRisk js now1 ac1;
          baseRisk2 = calculateMaintenanceRisk js now2 ac2;
          totalBaseRisk = jplus baseRisk1 baseRisk2
      in case validateRotation js st legs2 of
           Inl e \<Rightarrow> Inl e
         | Inr (feasibility1, st1) \<Rightarrow>
        (case validateRotation js st1 legs1 of
           Inl e \<Rightarrow> Inl e
         | Inr (feasibility2, st2) \<Rightarrow>
        (let feasible = (isValid feasibility1 \<and> isValid feasibility2);
             legs1Load = length (arrays st2 legs1);
             legs2Load = length (arrays st2 legs2);
             (newRisk1, newRisk2) =
               (if jgt baseRisk1 baseRisk2 \<and> legs1Load > legs2Load
                then (jtimes baseRisk1 (Num 0.8), jtimes baseRisk2 (Num 1.1))
                else if jgt baseRisk2 baseRisk1 \<and> legs2Load > legs1Load
                then (jtimes baseRisk1 (Num 1.1), jtimes baseRisk2 (Num 0.8))
                else (baseRisk1, baseRisk2));
             totalNewRisk = jplus newRisk1 newRisk2;
             improvement = jtimes (jminus totalBaseRisk totalNewRisk) (Num 100);
             recommendation =
               (if \<not> feasible then ''Swap not feasible due to rotation conflicts.''
                else if jgt improvement (Num 5)
                then ''STRONG RECOMMENDATION: Swap tails to mitigate maintenance risk on tight rotation.''
                else if jgt improvement (Num 0) then ''Marginal benefit. Swap at discretion.''
                else ''Keep current assignment.'')
         in Inr (\<lparr>aircraftA = ac1, aircraftB = ac2, riskScoreA = newRisk1,
                  riskScoreB = newRisk2, improvement = improvement, feasible = feasible,
                  recommendation = recommendation\<rparr>, st2))))"

section \<open>Built-ins for the worked examples\<close>

text \<open>
  The examples need concrete built-ins. \<open>readDecimal\<close> is \<open>Number\<close> on the strings
  of decimal digits (the empty string reads as 0); \<open>showNumber\<close> is the conversion to
  a string on the natural numbers; \<open>exampleDates\<close> is \<open>new Date(s).getTime()\<close> on
  the three dates the examples use (midnight UTC). Outside these domains the three
  functions answer \<open>NaN\<close> or the empty string, and no example goes there.
\<close>

definition readDecimal :: "string \<Rightarrow> jsnum" where
  "readDecimal s =
     (if list_all isDigit s then Num (real (foldl (\<lambda>n c. 10 * n + digitVal c) 0 s))
      else NaN)"

fun showNat :: "nat \<Rightarrow> string" where
  "showNat n =
     (if n < 10 then [char_of (48 + n)]
      else showNat (n div 10) @ [char_of (48 + n mod 10)])"

declare showNat.simps [simp del]

definition showNumber :: "jsnum \<Rightarrow> string" where
  "showNumber x =
     (case x of
        NaN \<Rightarrow> ''NaN''
      | Num r \<Rightarrow> (if 0 \<le> r \<and> r = real (nat \<lfloor>r\<rfloor>) then showNat (nat \<lfloor>r\<rfloor>) else []))"

definition exampleDates :: "string \<Rightarrow> jsnum" where
  "exampleDates s =
     (if s = ''2023-09-15'' then Num 1694736000000
      else if s = ''2023-10-01'' then Num 1696118400000
      else if s = ''2023-11-01'' then Num 1698796800000
      else NaN)"

definition exampleBuiltins :: builtins where
  "exampleBuiltins =
     \<lparr>jsNumber = readDecimal, jsToString = showNumber, jsDateTime = exampleDates\<rparr>"

section \<open>Derived descriptions used in the statements\<close>

text \<open>
  The store after one call of \<open>validateRotation\<close> on the array \<open>r\<close>: one new array,
  the sorted copy, at the next free reference.
\<close>

definition afterValidate :: "builtins \<Rightarrow> store \<Rightarrow> nat \<Rightarrow> store" where
  "afterValidate js st r =
     \<lparr>arrays = (arrays st)(nextRef st := Array_sort (depCompare js) (arrays st r)),
      nextRef = Suc (nextRef st)\<rparr>"

text \<open>
  The decision table, the improvement and the recommendation of the specification
  (section 4.4, steps 3 to 5).
\<close>

definition spec_newRisks :: "jsnum \<Rightarrow> jsnum \<Rightarrow> nat \<Rightarrow> nat \<Rightarrow> jsnum \<times> jsnum" where
  "spec_newRisks baseRiskA baseRiskB loadA loadB =
     (if jgt baseRiskA baseRiskB \<and> loadA > loadB
      then (jtimes baseRiskA (Num 0.8), jtimes baseRiskB (Num 1.1))
      else if jgt baseRiskB baseRiskA \<and> loadB > loadA
      then (jtimes baseRiskA (Num 1.1), jtimes baseRiskB (Num 0.8))
      else (baseRiskA, baseRiskB))"

definition spec_improvement :: "jsnum \<Rightarrow> jsnum \<Rightarrow> jsnum \<times> jsnum \<Rightarrow> jsnum" where
  "spec_improvement baseRiskA baseRiskB new =
     jtimes (jminus (jplus baseRiskA baseRiskB) (jplus (fst new) (snd new))) (Num 100)"

definition spec_recommendation :: "bool \<Rightarrow> jsnum \<Rightarrow> string" where
  "spec_recommendation feas imp =
     (if \<not> feas then ''Swap not feasible due to rotation conflicts.''
      else if jgt imp (Num 5)
      then ''STRONG RECOMMENDATION: Swap tails to mitigate maintenance risk on tight rotation.''
      else if jgt imp (Num 0) then ''Marginal benefit. Swap at discretion.''
      else ''Keep current assignment.'')"

section \<open>Example data\<close>

text \<open>
  The mock aircraft and rotations of pages/TailSwapPage.tsx, held in a store with the
  two arrays at references 0 and 1, and a clock reading of 2023-11-15, midnight UTC.
\<close>

definition AC_A :: Aircraft where
  "AC_A = \<lparr>tailNumber = ''TC-JNA'', type = ''B737-800'', ageYears = Num 12,
           cycles = Num 14500, lastMaintenance = ''2023-10-01'', snagCount = Num 3\<rparr>"

definition AC_B :: Aircraft where
  "AC_B = \<lparr>tailNumber = ''TC-JNB'', type = ''B737-800'', ageYears = Num 2,
           cycles = Num 1200, lastMaintenance = ''2023-11-01'', snagCount = Num 0\<rparr>"

definition LEGS_A :: "FlightLeg list" where
  "LEGS_A =
     [\<lparr>id_leg = ''a1'', flightNumber = ''TK101'', origin = ''IST'', destination = ''LHR'',
       schedDep = ''08:00'', schedArr = ''10:00'', status = ON_TIME\<rparr>,
      \<lparr>id_leg = ''a2'', flightNumber = ''TK102'', origin = ''LHR'', destination = ''IST'',
       schedDep = ''11:00'', schedArr = ''15:00'', status = ON_TIME\<rparr>,
      \<lparr>id_leg = ''a3'', flightNumber = ''TK103'', origin = ''IST'', destination = ''DXB'',
       schedDep = ''17:00'', schedArr = ''22:00'', status = ON_TIME\<rparr>]"

definition LEGS_B :: "FlightLeg list" where
  "LEGS_B =
     [\<lparr>id_leg = ''b1'', flightNumber = ''TK201'', origin = ''IST'', destination = ''ESB'',
       schedDep = ''09:00'', schedArr = ''10:00'', status = ON_TIME\<rparr>,
      \<lparr>id_leg = ''b2'', flightNumber = ''TK202'', origin = ''ESB'', destination = ''IST'',
       schedDep = ''11:00'', schedArr = ''12:00'', status = ON_TIME\<rparr>]"

text \<open>An aircraft ten years old, with no cycles and five open snags.\<close>

definition AC_R :: Aircraft where
  "AC_R = \<lparr>tailNumber = ''TC-JNR'', type = ''A320-200'', ageYears = Num 10,
           cycles = Num 0, lastMaintenance = ''2023-11-01'', snagCount = Num 5\<rparr>"

definition exampleStore :: store where
  "exampleStore = \<lparr>arrays = (\<lambda>_. [])(0 := LEGS_A, 1 := LEGS_B), nextRef = 2\<rparr>"

definition exampleNow :: real where
  "exampleNow = 1700006400000"

text \<open>
  The third example of the specification (section 8): legs A to B (08:00 to 10:00) and C
  to D (09:00 to 11:00), given in the reverse order.
\<close>

definition LEGS_X :: "FlightLeg list" where
  "LEGS_X =
     [\<lparr>id_leg = ''x2'', flightNumber = ''TK302'', origin = ''CCC'', destination = ''DDD'',
       schedDep = ''09:00'', schedArr = ''11:00'', status = ON_TIME\<rparr>,
      \<lparr>id_leg = ''x1'', flightNumber = ''TK301'', origin = ''AAA'', destination = ''BBB'',
       schedDep = ''08:00'', schedArr = ''10:00'', status = ON_TIME\<rparr>]"

definition storeX :: store where
  "storeX = \<lparr>arrays = (\<lambda>_. [])(0 := LEGS_X), nextRef = 1\<rparr>"

text \<open>
  The second example of the specification: A to B (08:00 to 10:00), then B to A leaving
  at 10:20, a gap of 20 minutes.
\<close>

definition LEGS_W :: "FlightLeg list" where
  "LEGS_W =
     [\<lparr>id_leg = ''w1'', flightNumber = ''TK401'', origin = ''AAA'', destination = ''BBB'',
       schedDep = ''08:00'', schedArr = ''10:00'', status = ON_TIME\<rparr>,
      \<lparr>id_leg = ''w2'', flightNumber = ''TK402'', origin = ''BBB'', destination = ''AAA'',
       schedDep = ''10:20'', schedArr = ''14:20'', status = ON_TIME\<rparr>]"

definition storeW :: store where
  "storeW = \<lparr>arrays = (\<lambda>_. [])(0 := LEGS_W), nextRef = 1\<rparr>"

section \<open>Results\<close>

subsection \<open>Rounding to binary64\<close>

lemma rhe_err: "\<bar>of_int (rhe r) - r\<bar> \<le> 1/2"
proof -
  define f where "f = \<lfloor>r\<rfloor>"
  have b: "of_int f \<le> r" "r < of_int f + 1" unfolding f_def by linarith+
  have "rhe r = f \<and> r - of_int f \<le> 1/2 \<or> rhe r = f + 1 \<and> 1/2 \<le> r - of_int f"
    unfolding rhe_def Let_def f_def[symmetric] by auto
  then show ?thesis using b by (auto simp: abs_if)
qed

lemma rhe_int: "rhe (of_int k) = k"
  by (simp add: rhe_def)

lemma pow2_pos: "0 < (2::real) powi q"
  by (simp add: zero_less_power_int)

lemma expo_bounds:
  assumes "x \<noteq> 0"
  shows "2 powi expo x \<le> \<bar>x\<bar>" "\<bar>x\<bar> < 2 powi (expo x + 1)"
proof -
  have p: "0 < \<bar>x\<bar>" using assms by simp
  have "of_int (expo x) \<le> log 2 \<bar>x\<bar>" unfolding expo_def by linarith
  then have "2 powr (of_int (expo x)) \<le> \<bar>x\<bar>"
    using p by (simp add: powr_le_iff)
  then show "2 powi expo x \<le> \<bar>x\<bar>" by (simp add: powr_real_of_int')
  have "log 2 \<bar>x\<bar> < of_int (expo x + 1)" unfolding expo_def by linarith
  then have "\<bar>x\<bar> < 2 powr (of_int (expo x + 1))"
    using p by (simp add: less_powr_iff)
  then show "\<bar>x\<bar> < 2 powi (expo x + 1)"
    using powr_real_of_int'[of 2 "expo x + 1"] by simp
qed

lemma pow2_mono: "a \<le> b \<Longrightarrow> (2::real) powi a \<le> 2 powi b"
  by (rule power_int_increasing) simp_all

lemma pow2_strict_mono: "a < b \<Longrightarrow> (2::real) powi a < 2 powi b"
  by (rule power_int_strict_increasing) simp_all

lemma expo_eqI:
  assumes "2 powi e \<le> \<bar>x\<bar>" "\<bar>x\<bar> < 2 powi (e + 1)"
  shows "expo x = e"
proof -
  have "0 < \<bar>x\<bar>" using assms(1) pow2_pos[of e] by linarith
  then have nz: "x \<noteq> 0" by simp
  note b = expo_bounds[OF nz]
  have "2 powi e < (2::real) powi (expo x + 1)" using assms(1) b(2) by linarith
  then have "e < expo x + 1"
    by (meson not_less pow2_mono leD)
  moreover have "2 powi (expo x) < (2::real) powi (e + 1)" using assms(2) b(1) by linarith
  then have "expo x < e + 1"
    by (meson not_less pow2_mono leD)
  ultimately show ?thesis by simp
qed

lemma f64_round_eqI:
  assumes "2 powi e \<le> \<bar>x\<bar>" "\<bar>x\<bar> < 2 powi (e + 1)" "- 1022 \<le> e"
  shows "f64_round x = of_int (rhe (x / 2 powi (e - 52))) * 2 powi (e - 52)"
proof -
  have "0 < \<bar>x\<bar>" using assms(1) pow2_pos[of e] by linarith
  then have nz: "x \<noteq> 0" by simp
  have "expo x = e" using assms(1,2) by (rule expo_eqI)
  then show ?thesis using nz assms(3) by (simp add: f64_round_def max_def Let_def)
qed

lemma f64_round_0: "f64_round 0 = 0"
  by (simp add: f64_round_def)

lemma f64_round_err:
  assumes "\<bar>x\<bar> < 2"
  shows "\<bar>f64_round x - x\<bar> \<le> 1 / 2 ^ 53"
proof (cases "x = 0")
  case True
  then show ?thesis by (simp add: f64_round_0)
next
  case False
  define q where "q = max (expo x) (- 1022) - 52"
  have "2 powi expo x < (2::real) powi 1"
    using expo_bounds(1)[OF False] assms by simp
  then have "expo x < 1" by (meson not_less pow2_mono leD)
  then have q: "q \<le> - 52" unfolding q_def by simp
  have f: "f64_round x = of_int (rhe (x / 2 powi q)) * 2 powi q"
    using False by (simp add: f64_round_def Let_def q_def)
  have "\<bar>f64_round x - x\<bar> = \<bar>of_int (rhe (x / 2 powi q)) - x / 2 powi q\<bar> * 2 powi q"
  proof -
    have "f64_round x - x = (of_int (rhe (x / 2 powi q)) - x / 2 powi q) * 2 powi q"
      using pow2_pos[of q] by (simp add: f field_simps)
    then show ?thesis using pow2_pos[of q] by (simp add: abs_mult)
  qed
  also have "\<dots> \<le> 1/2 * 2 powi q"
    using rhe_err[of "x / 2 powi q"] pow2_pos[of q] by (intro mult_right_mono) simp_all
  also have "\<dots> \<le> 1/2 * 2 powi (- 52)"
    using pow2_mono[OF q] by simp
  also have "\<dots> = 1 / 2 ^ 53" by (simp add: power_int_minus field_simps)
  finally show ?thesis .
qed

lemma f64_round_int:
  assumes "\<bar>n\<bar> < 2 ^ 53"
  shows "f64_round (of_int n) = of_int n"
proof (cases "n = 0")
  case True
  then show ?thesis by (simp add: f64_round_0)
next
  case False
  define x :: real where "x = of_int n"
  have nz: "x \<noteq> 0" using False by (simp add: x_def)
  have "1 \<le> \<bar>n\<bar>" using False by simp
  then have "(of_int 1 :: real) \<le> of_int \<bar>n\<bar>" by (simp only: of_int_le_iff)
  then have ax1: "1 \<le> \<bar>x\<bar>" by (simp add: x_def)
  have "(of_int \<bar>n\<bar> :: real) < of_int (2 ^ 53)" using assms by (simp only: of_int_less_iff)
  then have ax2: "\<bar>x\<bar> < 2 ^ 53" by (simp add: x_def)
  note ax = ax1 ax2
  have "(2::real) powi 0 < 2 powi (expo x + 1)" using expo_bounds(2)[OF nz] ax(1) by simp
  then have e0: "0 \<le> expo x" by (smt (verit) pow2_mono)
  have "2 powi expo x < (2::real) powi 53" using expo_bounds(1)[OF nz] ax(2) by simp
  then have e1: "expo x \<le> 52" by (smt (verit) pow2_mono)
  define k where "k = nat (52 - expo x)"
  have q: "max (expo x) (- 1022) - 52 = - int k" using e0 e1 by (simp add: k_def)
  have "x / 2 powi (- int k) = of_int (n * 2 ^ k)"
    by (simp add: x_def power_int_minus field_simps)
  then have "rhe (x / 2 powi (- int k)) = n * 2 ^ k"
    by (simp only: rhe_int)
  then have "f64_round x = of_int (n * 2 ^ k) * 2 powi (- int k)"
    using nz by (simp add: f64_round_def Let_def q)
  also have "\<dots> = x" by (simp add: x_def power_int_minus field_simps)
  finally show ?thesis by (simp add: x_def)
qed


text \<open>The literals of the two scoring functions, as binary64 numbers.\<close>

lemma f64_literals:
  "f64_round 0.1 = 3602879701896397 / 36028797018963968"
  "f64_round 0.2 = 3602879701896397 / 18014398509481984"
  "f64_round 0.3 = 5404319552844595 / 18014398509481984"
  "f64_round 0.4 = 3602879701896397 / 9007199254740992"
  "f64_round 0.5 = 1 / 2"
  "f64_round 0.05 = 3602879701896397 / 72057594037927936"
  "f64_round 0.99 = 4458563631096791 / 4503599627370496"
  "f64_round 0.015 = 1080863910568919 / 72057594037927936"
  "f64_round 0.08 = 5764607523034235 / 72057594037927936"
  "f64_round 0.15 = 5404319552844595 / 36028797018963968"
proof -
  show "f64_round 0.1 = 3602879701896397 / 36028797018963968"
    by (subst f64_round_eqI[where e = "- 4"], simp_all add: rhe_def power_int_minus)
  show "f64_round 0.2 = 3602879701896397 / 18014398509481984"
    by (subst f64_round_eqI[where e = "- 3"], simp_all add: rhe_def power_int_minus)
  show "f64_round 0.3 = 5404319552844595 / 18014398509481984"
    by (subst f64_round_eqI[where e = "- 2"], simp_all add: rhe_def power_int_minus)
  show "f64_round 0.4 = 3602879701896397 / 9007199254740992"
    by (subst f64_round_eqI[where e = "- 2"], simp_all add: rhe_def power_int_minus)
  show "f64_round 0.5 = 1 / 2"
    by (subst f64_round_eqI[where e = "- 1"], simp_all add: rhe_def power_int_minus)
  show "f64_round 0.05 = 3602879701896397 / 72057594037927936"
    by (subst f64_round_eqI[where e = "- 5"], simp_all add: rhe_def power_int_minus)
  show "f64_round 0.99 = 4458563631096791 / 4503599627370496"
    by (subst f64_round_eqI[where e = "- 1"], simp_all add: rhe_def power_int_minus)
  show "f64_round 0.015 = 1080863910568919 / 72057594037927936"
    by (subst f64_round_eqI[where e = "- 7"], simp_all add: rhe_def power_int_minus)
  show "f64_round 0.08 = 5764607523034235 / 72057594037927936"
    by (subst f64_round_eqI[where e = "- 4"], simp_all add: rhe_def power_int_minus)
  show "f64_round 0.15 = 5404319552844595 / 36028797018963968"
    by (subst f64_round_eqI[where e = "- 3"], simp_all add: rhe_def power_int_minus)
qed

subsection \<open>Delay risk with exact sums\<close>

lemma step_time:
  "(if jgt m (Num 1000) then jplus (Num x) (Num 0.2)
    else if jgt m (Num 720) then jplus (Num x) (Num 0.1) else Num x) = Num (x + timePenalty m)"
  by (simp add: timePenalty_def)

lemma step_delay:
  "(if jgt d (Num 60) then jplus (Num x) (Num 0.4)
    else if jgt d (Num 15) then jplus (Num x) (Num 0.2) else Num x) = Num (x + delayPenalty d)"
  by (simp add: delayPenalty_def)

lemma step_weather:
  "(case w of STORM \<Rightarrow> jplus (Num x) (Num 0.5) | SNOW \<Rightarrow> jplus (Num x) (Num 0.4)
     | FOG \<Rightarrow> jplus (Num x) (Num 0.3) | RAIN \<Rightarrow> jplus (Num x) (Num 0.1) | _ \<Rightarrow> Num x)
   = Num (x + weatherPenalty w)"
  by (cases w) simp_all

lemma step_type:
  "(if t = ''B737-MAX'' \<or> t = ''A321neo'' then jminus (Num x) (Num 0.05) else Num x)
   = Num (x - typeAdjust t)"
  by (simp add: typeAdjust_def)

lemma calculateDelayRisk_score:
  "calculateDelayRisk js i =
     Num (min (max (0.1 + timePenalty (parseTime js (schedDepTime i))
                    + delayPenalty (prevDelayMinutes i)
                    + weatherPenalty (weatherCondition i)
                    - typeAdjust (aircraftType i)) 0) 0.99)"
  unfolding calculateDelayRisk_def Let_def step_time step_delay step_weather step_type
  by simp

lemma isDigit_not_colon: "isDigit c \<Longrightarrow> c \<noteq> CHR '':''"
  by (auto simp: isDigit_def)

lemma parseTime_wellFormed:
  assumes "wellFormedTime s" "readsTwoDigits js"
  shows "parseTime js s = Num (real (minuteOfDay s))"
proof -
  from assms(1) obtain a b d e where s: "s = [a, b, CHR '':'', d, e]"
    and dg: "isDigit a" "isDigit b" "isDigit d" "isDigit e"
    by (auto simp: wellFormedTime_def split: list.splits)
  have "split_colon s = [[a, b], [d, e]]"
    using dg by (simp add: s isDigit_not_colon)
  moreover have "jsNumber js [a, b] = Num (real (twoDigits a b))"
    "jsNumber js [d, e] = Num (real (twoDigits d e))"
    using assms(2) dg by (simp_all add: readsTwoDigits_def)
  ultimately show ?thesis
    by (simp add: parseTime_def minuteOfDay_def s)
qed

lemma spec_delayRisk_penalties:
  "spec_delayRisk m d w t =
     min (max (0.1 + timePenalty (Num m) + delayPenalty d + weatherPenalty w - typeAdjust t) 0) 0.99"
  unfolding spec_delayRisk_def timePenalty_def delayPenalty_def typeAdjust_def jgt.simps ..

lemma delayPenalty_mono: "jle d1 d2 \<Longrightarrow> delayPenalty d1 \<le> delayPenalty d2"
  by (cases d1; cases d2) (auto simp: delayPenalty_def)

lemma clamp_mono: "x \<le> y \<Longrightarrow> min (max x lo) hi \<le> min (max y lo) (hi::real)"
  by (simp add: min_def max_def)

lemma readsTwoDigits_example: "readsTwoDigits exampleBuiltins"
  by (simp add: readsTwoDigits_def exampleBuiltins_def readDecimal_def twoDigits_def)

lemma parseTime_example:
  "wellFormedTime s \<Longrightarrow> parseTime exampleBuiltins s = Num (real (minuteOfDay s))"
  by (simp add: parseTime_wellFormed readsTwoDigits_example)

text \<open>
  C8. With every other field fixed, the score does not decrease when the inbound delay
  grows: for \<open>d1 \<le> d2\<close> the score at \<open>d1\<close> is at most the score at \<open>d2\<close>. This
  holds for every departure string, well-formed or not.
\<close>

theorem calculateDelayRisk_mono:
  assumes "jle d1 d2"
  shows "jle (calculateDelayRisk js (i\<lparr>prevDelayMinutes := d1\<rparr>))
             (calculateDelayRisk js (i\<lparr>prevDelayMinutes := d2\<rparr>))"
proof -
  have "delayPenalty d1 \<le> delayPenalty d2"
    using assms by (rule delayPenalty_mono)
  then show ?thesis
    unfolding calculateDelayRisk_score
    by (simp only: jle.simps DelayInput.simps) (rule clamp_mono, simp)
qed

text \<open>From 10 to 70 minutes of inbound delay, at 08:00 in clear weather: 0.10 to 0.50.\<close>

theorem calculateDelayRisk_mono_witness:
  "jle (Num 10) (Num 70) \<and>
   calculateDelayRisk exampleBuiltins
     \<lparr>schedDepTime = ''08:00'', prevDelayMinutes = Num 10, aircraftType = ''B737-800'',
      weatherCondition = CLEAR\<rparr> = Num 0.1 \<and>
   calculateDelayRisk exampleBuiltins
     \<lparr>schedDepTime = ''08:00'', prevDelayMinutes = Num 70, aircraftType = ''B737-800'',
      weatherCondition = CLEAR\<rparr> = Num 0.5 \<and>
   jle (calculateDelayRisk exampleBuiltins
          \<lparr>schedDepTime = ''08:00'', prevDelayMinutes = Num 10, aircraftType = ''B737-800'',
           weatherCondition = CLEAR\<rparr>)
       (calculateDelayRisk exampleBuiltins
          \<lparr>schedDepTime = ''08:00'', prevDelayMinutes = Num 70, aircraftType = ''B737-800'',
           weatherCondition = CLEAR\<rparr>)"
proof -
  have wf: "wellFormedTime ''08:00''"
    by (simp add: wellFormedTime_def isDigit_def twoDigits_def digitVal_def)
  have m: "parseTime exampleBuiltins ''08:00'' = Num 480"
    using parseTime_example[OF wf] by (simp add: minuteOfDay_def twoDigits_def digitVal_def)
  have v: "calculateDelayRisk exampleBuiltins
     \<lparr>schedDepTime = ''08:00'', prevDelayMinutes = Num 10, aircraftType = ''B737-800'',
      weatherCondition = CLEAR\<rparr> = Num 0.1"
    "calculateDelayRisk exampleBuiltins
     \<lparr>schedDepTime = ''08:00'', prevDelayMinutes = Num 70, aircraftType = ''B737-800'',
      weatherCondition = CLEAR\<rparr> = Num 0.5"
    by (simp_all add: calculateDelayRisk_score m timePenalty_def delayPenalty_def
        typeAdjust_def)
  have le: "jle (Num 10) (Num 70)" by simp
  show ?thesis
    using calculateDelayRisk_mono
      [OF le, of exampleBuiltins
        "\<lparr>schedDepTime = ''08:00'', prevDelayMinutes = Num 0, aircraftType = ''B737-800'',
          weatherCondition = CLEAR\<rparr>"]
    by (simp add: v)
qed

subsection \<open>Delay risk in binary64\<close>

lemma f64_round_nat:
  assumes "n < 2 ^ 53"
  shows "f64_round (real n) = real n"
proof -
  have "\<bar>int n\<bar> < 2 ^ 53" using assms by simp
  from f64_round_int[OF this] show ?thesis by simp
qed

lemma twoDigits_le: "isDigit a \<Longrightarrow> isDigit b \<Longrightarrow> twoDigits a b \<le> 99"
  unfolding isDigit_def twoDigits_def digitVal_def by linarith

text \<open>On a well-formed clock string the two roundings of \<open>parseTime\<close> change nothing.\<close>

lemma parseTime_f64_wellFormed:
  assumes "wellFormedTime s" "readsTwoDigits js"
  shows "parseTime_f64 js s = Num (real (minuteOfDay s))"
proof -
  from assms(1) obtain a b d e where s: "s = [a, b, CHR '':'', d, e]"
    and dg: "isDigit a" "isDigit b" "isDigit d" "isDigit e"
    by (auto simp: wellFormedTime_def split: list.splits)
  define hh where "hh = twoDigits a b"
  define mm where "mm = twoDigits d e"
  have le: "hh \<le> 99" "mm \<le> 99"
    using dg by (simp_all add: hh_def mm_def twoDigits_le)
  have sp: "split_colon s = [[a, b], [d, e]]"
    using dg by (simp add: s isDigit_not_colon)
  have n: "jsNumber js [a, b] = Num (real hh)" "jsNumber js [d, e] = Num (real mm)"
    using assms(2) dg by (simp_all add: readsTwoDigits_def hh_def mm_def)
  have "hh * 60 < 2 ^ 53" using le(1) by simp
  then have r1: "f64_round (real hh * 60) = real (hh * 60)"
    using f64_round_nat[of "hh * 60"] by simp
  have "hh * 60 + mm < 2 ^ 53" using le by simp
  then have r2: "f64_round (real (hh * 60) + real mm) = real (hh * 60 + mm)"
    using f64_round_nat[of "hh * 60 + mm"] by simp
  have "parseTime_f64 js s = Num (real (hh * 60 + mm))"
    by (simp add: parseTime_f64_def sp n r1 r2 del: of_nat_mult of_nat_add)
  then show ?thesis by (simp add: minuteOfDay_def s hh_def mm_def)
qed

text \<open>
  The function is the binary64 rule at the parsed minute; an unparsed minute (\<open>NaN\<close>)
  takes no time-of-day penalty, as minute 0 does.
\<close>

lemma step_time_f64:
  "(if jgt mn (Num 1000) then f64_add (Num x) (Num p)
    else if jgt mn (Num 720) then f64_add (Num x) (Num p') else Num x)
   = Num (if the_Num mn > 1000 then f64_round (x + p)
          else if the_Num mn > 720 then f64_round (x + p') else x)"
  by (cases mn) simp_all

lemma step_delay_f64:
  "(if jgt d (Num 60) then f64_add (Num x) (Num p)
    else if jgt d (Num 15) then f64_add (Num x) (Num p') else Num x)
   = Num (if jgt d (Num 60) then f64_round (x + p)
          else if jgt d (Num 15) then f64_round (x + p') else x)"
  by simp

lemma step_weather_f64:
  "(case w of STORM \<Rightarrow> f64_add (Num x) (Num (f64_round 0.5))
     | SNOW \<Rightarrow> f64_add (Num x) (Num (f64_round 0.4))
     | FOG \<Rightarrow> f64_add (Num x) (Num (f64_round 0.3))
     | RAIN \<Rightarrow> f64_add (Num x) (Num (f64_round 0.1))
     | _ \<Rightarrow> Num x)
   = Num (if w = CLEAR then x else f64_round (x + f64_round (weatherPenalty w)))"
  by (cases w) simp_all

lemma step_type_f64:
  "(if c then f64_sub (Num x) (Num p) else Num x) = Num (if c then f64_round (x - p) else x)"
  by simp

lemma calculateDelayRisk_f64_spec:
  "calculateDelayRisk_f64 js i =
     Num (spec_delayRisk_f64 (the_Num (parseTime_f64 js (schedDepTime i)))
            (prevDelayMinutes i) (weatherCondition i) (aircraftType i))"
  unfolding calculateDelayRisk_f64_def spec_delayRisk_f64_def Let_def f64_def
    step_time_f64 step_delay_f64 step_weather_f64 step_type_f64
  by (simp only: Math_max.simps Math_min.simps)

lemma spec_delayRisk_f64_range:
  "0 \<le> spec_delayRisk_f64 m d w t \<and> spec_delayRisk_f64 m d w t \<le> 0.99 \<and>
   spec_delayRisk_f64 m d w t < 1"
proof -
  have c: "f64_round 0.99 = 4458563631096791 / 4503599627370496"
    by (rule f64_literals)
  obtain s where "spec_delayRisk_f64 m d w t = min (max s 0) (f64_round 0.99)"
    unfolding spec_delayRisk_f64_def Let_def by blast
  then show ?thesis unfolding c by (simp add: min_def max_def)
qed

text \<open>
  Rounding error of one accumulation step: the literal and the sum are each rounded
  once, and below 2 one rounding moves a value by at most \<open>1 / 2 ^ 53\<close>.
\<close>

lemma add_err:
  assumes "\<bar>s - t\<bar> \<le> k / 2 ^ 53" "\<bar>t\<bar> \<le> 13 / 10" "0 \<le> k" "k \<le> 9" "\<bar>p\<bar> \<le> 1 / 2"
  shows "\<bar>f64_round (s + f64_round p) - (t + p)\<bar> \<le> (k + 2) / 2 ^ 53"
proof -
  have e1: "\<bar>f64_round p - p\<bar> \<le> 1 / 2 ^ 53"
    using assms(5) by (intro f64_round_err) simp
  have "k / 2 ^ 53 \<le> 9 / (2 ^ 53 :: real)"
    using assms(4) by (intro divide_right_mono) simp_all
  then have a: "\<bar>s - t\<bar> \<le> 1 / 1000" using assms(1) by simp
  have b: "\<bar>f64_round p - p\<bar> \<le> 1 / 1000" using e1 by simp
  have "\<bar>s + f64_round p\<bar> < 2"
    using a b assms(2,5) by linarith
  then have e2: "\<bar>f64_round (s + f64_round p) - (s + f64_round p)\<bar> \<le> 1 / 2 ^ 53"
    by (rule f64_round_err)
  have "(k + 2) / 2 ^ 53 = k / 2 ^ 53 + 1 / 2 ^ 53 + 1 / (2 ^ 53 :: real)"
    by (simp add: add_divide_distrib)
  then show ?thesis using assms(1) e1 e2 by linarith
qed

lemma sub_err:
  assumes "\<bar>s - t\<bar> \<le> k / 2 ^ 53" "\<bar>t\<bar> \<le> 13 / 10" "0 \<le> k" "k \<le> 9" "\<bar>p\<bar> \<le> 1 / 2"
  shows "\<bar>f64_round (s - f64_round p) - (t - p)\<bar> \<le> (k + 2) / 2 ^ 53"
proof -
  have e1: "\<bar>f64_round p - p\<bar> \<le> 1 / 2 ^ 53"
    using assms(5) by (intro f64_round_err) simp
  have "k / 2 ^ 53 \<le> 9 / (2 ^ 53 :: real)"
    using assms(4) by (intro divide_right_mono) simp_all
  then have a: "\<bar>s - t\<bar> \<le> 1 / 1000" using assms(1) by simp
  have b: "\<bar>f64_round p - p\<bar> \<le> 1 / 1000" using e1 by simp
  have "\<bar>s - f64_round p\<bar> < 2"
    using a b assms(2,5) by linarith
  then have e2: "\<bar>f64_round (s - f64_round p) - (s - f64_round p)\<bar> \<le> 1 / 2 ^ 53"
    by (rule f64_round_err)
  have "(k + 2) / 2 ^ 53 = k / 2 ^ 53 + 1 / 2 ^ 53 + 1 / (2 ^ 53 :: real)"
    by (simp add: add_divide_distrib)
  then show ?thesis using assms(1) e1 e2 by linarith
qed

lemma clamp_close:
  fixes a b c c' e :: real
  assumes "\<bar>a - b\<bar> \<le> e" "\<bar>c' - c\<bar> \<le> e"
  shows "\<bar>min (max a 0) c' - min (max b 0) c\<bar> \<le> e"
  using assms by (simp add: min_def max_def abs_if split: if_splits)

lemma penalty_bounds:
  "0 \<le> timePenalty m" "timePenalty m \<le> 2 / 10"
  "0 \<le> delayPenalty d" "delayPenalty d \<le> 4 / 10"
  "0 \<le> weatherPenalty w" "weatherPenalty w \<le> 5 / 10"
  "0 \<le> typeAdjust t" "typeAdjust t \<le> 5 / 100"
proof -
  show "0 \<le> timePenalty m" "timePenalty m \<le> 2 / 10"
    "0 \<le> delayPenalty d" "delayPenalty d \<le> 4 / 10"
    "0 \<le> typeAdjust t" "typeAdjust t \<le> 5 / 100"
    by (simp_all add: timePenalty_def delayPenalty_def typeAdjust_def)
  show "0 \<le> weatherPenalty w" "weatherPenalty w \<le> 5 / 10"
    by (cases w; simp)+
qed

text \<open>The binary64 rule stays within \<open>9 / 2 ^ 53\<close>, less than \<open>10\<^sup>-\<^sup>1\<^sup>5\<close>, of the exact rule.\<close>

lemma spec_delayRisk_f64_close:
  "\<bar>spec_delayRisk_f64 m d w t - spec_delayRisk m d w t\<bar> \<le> 1 / 10 ^ 15"
proof -
  define s0 where "s0 = f64_round 0.1"
  define s1 where "s1 = (if m > 1000 then f64_round (s0 + f64_round 0.2)
               else if m > 720 then f64_round (s0 + f64_round 0.1) else s0)"
  define s2 where "s2 = (if jgt d (Num 60) then f64_round (s1 + f64_round 0.4)
               else if jgt d (Num 15) then f64_round (s1 + f64_round 0.2) else s1)"
  define s3 where "s3 = (if w = CLEAR then s2 else f64_round (s2 + f64_round (weatherPenalty w)))"
  define s4 where "s4 = (if t = ''B737-MAX'' \<or> t = ''A321neo''
               then f64_round (s3 - f64_round 0.05) else s3)"
  define t1 where "t1 = 0.1 + timePenalty (Num m)"
  define t2 where "t2 = t1 + delayPenalty d"
  define t3 where "t3 = t2 + weatherPenalty w"
  define t4 where "t4 = t3 - typeAdjust t"
  have pb: "0 \<le> timePenalty (Num m)" "timePenalty (Num m) \<le> 2 / 10"
    "0 \<le> delayPenalty d" "delayPenalty d \<le> 4 / 10"
    "0 \<le> weatherPenalty w" "weatherPenalty w \<le> 5 / 10"
    "0 \<le> typeAdjust t" "typeAdjust t \<le> 5 / 100"
    by (rule penalty_bounds)+
  have b1: "\<bar>t1\<bar> \<le> 13 / 10" "\<bar>t2\<bar> \<le> 13 / 10" "\<bar>t3\<bar> \<le> 13 / 10"
    using pb unfolding t1_def t2_def t3_def by (simp_all add: abs_if)
  have e0: "\<bar>s0 - 0.1\<bar> \<le> 1 / 2 ^ 53"
    unfolding s0_def by (intro f64_round_err) simp
  have e1: "\<bar>s1 - t1\<bar> \<le> 3 / 2 ^ 53"
  proof -
    consider (a) "m > 1000" | (b) "\<not> m > 1000" "m > 720" | (c) "\<not> m > 1000" "\<not> m > 720"
      by blast
    then show ?thesis
    proof cases
      case a
      then show ?thesis
        using add_err[of s0 "0.1" 1 "0.2"] e0 by (simp add: s1_def t1_def timePenalty_def)
    next
      case b
      then show ?thesis
        using add_err[of s0 "0.1" 1 "0.1"] e0 by (simp add: s1_def t1_def timePenalty_def)
    next
      case c
      then show ?thesis
        using e0 by (simp add: s1_def t1_def timePenalty_def)
    qed
  qed
  have e2: "\<bar>s2 - t2\<bar> \<le> 5 / 2 ^ 53"
  proof -
    consider (a) "jgt d (Num 60)" | (b) "\<not> jgt d (Num 60)" "jgt d (Num 15)"
      | (c) "\<not> jgt d (Num 60)" "\<not> jgt d (Num 15)"
      by blast
    then show ?thesis
    proof cases
      case a
      then show ?thesis
        using add_err[of s1 t1 3 "0.4"] e1 b1(1) by (simp add: s2_def t2_def delayPenalty_def)
    next
      case b
      then show ?thesis
        using add_err[of s1 t1 3 "0.2"] e1 b1(1) by (simp add: s2_def t2_def delayPenalty_def)
    next
      case c
      then show ?thesis
        using e1 by (simp add: s2_def t2_def delayPenalty_def)
    qed
  qed
  have e3: "\<bar>s3 - t3\<bar> \<le> 7 / 2 ^ 53"
  proof (cases "w = CLEAR")
    case True
    then show ?thesis using e2 by (simp add: s3_def t3_def)
  next
    case False
    have "\<bar>weatherPenalty w\<bar> \<le> 1 / 2" using pb(5,6) by simp
    from add_err[OF _ b1(2) _ _ this, of s2 5] e2 False
    show ?thesis by (simp add: s3_def t3_def)
  qed
  have e4: "\<bar>s4 - t4\<bar> \<le> 9 / 2 ^ 53"
  proof (cases "t = ''B737-MAX'' \<or> t = ''A321neo''")
    case True
    then show ?thesis
      using sub_err[of s3 t3 7 "0.05"] e3 b1(3) by (simp add: s4_def t4_def typeAdjust_def)
  next
    case False
    then show ?thesis
      using e3 by (simp add: s4_def t4_def typeAdjust_def)
  qed
  have c: "\<bar>f64_round 0.99 - 0.99\<bar> \<le> 9 / 2 ^ 53"
    using f64_round_err[of "0.99"] by simp
  have f: "spec_delayRisk_f64 m d w t = min (max s4 0) (f64_round 0.99)"
    unfolding spec_delayRisk_f64_def Let_def s4_def s3_def s2_def s1_def s0_def ..
  have g: "spec_delayRisk m d w t = min (max t4 0) 0.99"
    by (simp add: spec_delayRisk_penalties t1_def t2_def t3_def t4_def)
  have "\<bar>spec_delayRisk_f64 m d w t - spec_delayRisk m d w t\<bar> \<le> 9 / 2 ^ 53"
    unfolding f g using e4 c by (rule clamp_close)
  also have "\<dots> \<le> 1 / 10 ^ 15" by simp
  finally show ?thesis .
qed

text \<open>The sums of the two worked examples, one rounding at a time.\<close>

lemma delay_sums:
  "f64_round ((3602879701896397 / 36028797018963968) + (3602879701896397 / 36028797018963968)) = 3602879701896397 / 18014398509481984"
  "f64_round ((3602879701896397 / 18014398509481984) + (3602879701896397 / 18014398509481984)) = 3602879701896397 / 9007199254740992"
  "f64_round ((3602879701896397 / 9007199254740992) + (3602879701896397 / 36028797018963968)) = 1 / 2"
  "f64_round ((1 / 2) - (3602879701896397 / 72057594037927936)) = 8106479329266893 / 18014398509481984"
  "f64_round ((3602879701896397 / 36028797018963968) + (3602879701896397 / 18014398509481984)) = 1351079888211149 / 4503599627370496"
  "f64_round ((1351079888211149 / 4503599627370496) + (5404319552844595 / 18014398509481984)) = 1351079888211149 / 2251799813685248"
proof -
  show "f64_round ((3602879701896397 / 36028797018963968) + (3602879701896397 / 36028797018963968)) = 3602879701896397 / 18014398509481984"
    by (subst f64_round_eqI[where e = "- 3"], simp_all add: rhe_def power_int_minus)
  show "f64_round ((3602879701896397 / 18014398509481984) + (3602879701896397 / 18014398509481984)) = 3602879701896397 / 9007199254740992"
    by (subst f64_round_eqI[where e = "- 2"], simp_all add: rhe_def power_int_minus)
  show "f64_round ((3602879701896397 / 9007199254740992) + (3602879701896397 / 36028797018963968)) = 1 / 2"
    by (subst f64_round_eqI[where e = "- 1"], simp_all add: rhe_def power_int_minus)
  show "f64_round ((1 / 2) - (3602879701896397 / 72057594037927936)) = 8106479329266893 / 18014398509481984"
    by (subst f64_round_eqI[where e = "- 2"], simp_all add: rhe_def power_int_minus)
  show "f64_round ((3602879701896397 / 36028797018963968) + (3602879701896397 / 18014398509481984)) = 1351079888211149 / 4503599627370496"
    by (subst f64_round_eqI[where e = "- 2"], simp_all add: rhe_def power_int_minus)
  show "f64_round ((1351079888211149 / 4503599627370496) + (5404319552844595 / 18014398509481984)) = 1351079888211149 / 2251799813685248"
    by (subst f64_round_eqI[where e = "- 1"], simp_all add: rhe_def power_int_minus)
qed

lemma minuteOfDay_examples:
  "wellFormedTime ''13:05''" "minuteOfDay ''13:05'' = 785"
  "wellFormedTime ''17:00''" "minuteOfDay ''17:00'' = 1020"
  by (simp_all add: wellFormedTime_def minuteOfDay_def isDigit_def twoDigits_def digitVal_def)

lemma spec_delayRisk_f64_examples:
  "spec_delayRisk_f64 785 (Num 20) RAIN ''A321neo'' = 8106479329266893 / 18014398509481984"
  "spec_delayRisk_f64 1020 (Num 0) FOG ''B737-800'' = 1351079888211149 / 2251799813685248"
proof -
  have a: "spec_delayRisk_f64 785 (Num 20) RAIN ''A321neo'' =
      min (max (f64_round (f64_round (f64_round (f64_round (f64_round 0.1 + f64_round 0.1)
                 + f64_round 0.2) + f64_round 0.1) - f64_round 0.05)) 0) (f64_round 0.99)"
    by (simp add: spec_delayRisk_f64_def Let_def)
  have b: "f64_round (f64_round (f64_round (f64_round (f64_round 0.1 + f64_round 0.1)
                 + f64_round 0.2) + f64_round 0.1) - f64_round 0.05)
           = 8106479329266893 / 18014398509481984"
    by (simp only: f64_literals delay_sums)
  have c: "f64_round 0.99 = 4458563631096791 / 4503599627370496"
    by (rule f64_literals)
  show "spec_delayRisk_f64 785 (Num 20) RAIN ''A321neo'' = 8106479329266893 / 18014398509481984"
    unfolding a b c by simp
  have a': "spec_delayRisk_f64 1020 (Num 0) FOG ''B737-800'' =
      min (max (f64_round (f64_round (f64_round 0.1 + f64_round 0.2) + f64_round 0.3)) 0)
          (f64_round 0.99)"
    by (simp add: spec_delayRisk_f64_def Let_def)
  have b': "f64_round (f64_round (f64_round 0.1 + f64_round 0.2) + f64_round 0.3)
           = 1351079888211149 / 2251799813685248"
    by (simp only: f64_literals delay_sums)
  show "spec_delayRisk_f64 1020 (Num 0) FOG ''B737-800'' = 1351079888211149 / 2251799813685248"
    unfolding a' b' c by simp
qed

text \<open>
  C3 (as amended). For a well-formed departure time (and \<open>Number\<close> reading two digits
  in base ten) the score is the rule of the specification accumulated in binary64: the
  base 0.10, then the time-of-day, inbound-delay and weather penalties and the
  adjustment for the two newer types, each added with one rounding, clamped to
  [0, 0.99]. It is within \<open>10\<^sup>-\<^sup>1\<^sup>5\<close> of the exact decimal total. For every input,
  well-formed or not, the score is a number in [0, 0.99], below 1.
\<close>

theorem calculateDelayRisk_f64_formula:
  "(wellFormedTime (schedDepTime i) \<and> readsTwoDigits js \<longrightarrow>
      calculateDelayRisk_f64 js i =
        Num (spec_delayRisk_f64 (real (minuteOfDay (schedDepTime i))) (prevDelayMinutes i)
               (weatherCondition i) (aircraftType i)) \<and>
      \<bar>spec_delayRisk_f64 (real (minuteOfDay (schedDepTime i))) (prevDelayMinutes i)
           (weatherCondition i) (aircraftType i)
        - spec_delayRisk (real (minuteOfDay (schedDepTime i))) (prevDelayMinutes i)
           (weatherCondition i) (aircraftType i)\<bar> \<le> 1 / 10 ^ 15) \<and>
   (\<exists>r. calculateDelayRisk_f64 js i = Num r \<and> 0 \<le> r \<and> r \<le> 0.99 \<and> r < 1)"
proof (intro conjI impI)
  assume "wellFormedTime (schedDepTime i) \<and> readsTwoDigits js"
  then have "parseTime_f64 js (schedDepTime i) = Num (real (minuteOfDay (schedDepTime i)))"
    by (simp add: parseTime_f64_wellFormed)
  then show "calculateDelayRisk_f64 js i =
        Num (spec_delayRisk_f64 (real (minuteOfDay (schedDepTime i))) (prevDelayMinutes i)
               (weatherCondition i) (aircraftType i))"
    by (simp only: calculateDelayRisk_f64_spec the_Num.simps)
next
  show "\<bar>spec_delayRisk_f64 (real (minuteOfDay (schedDepTime i))) (prevDelayMinutes i)
           (weatherCondition i) (aircraftType i)
        - spec_delayRisk (real (minuteOfDay (schedDepTime i))) (prevDelayMinutes i)
           (weatherCondition i) (aircraftType i)\<bar> \<le> 1 / 10 ^ 15"
    by (rule spec_delayRisk_f64_close)
next
  show "\<exists>r. calculateDelayRisk_f64 js i = Num r \<and> 0 \<le> r \<and> r \<le> 0.99 \<and> r < 1"
    unfolding calculateDelayRisk_f64_spec using spec_delayRisk_f64_range by blast
qed

text \<open>
  An afternoon departure at 13:05, 20 minutes of inbound delay, rain, an A321neo: the
  exact total is 0.45 and the score is the binary64 number next to it.
\<close>

theorem calculateDelayRisk_f64_formula_witness:
  "wellFormedTime ''13:05'' \<and> readsTwoDigits exampleBuiltins \<and>
   calculateDelayRisk_f64 exampleBuiltins
     \<lparr>schedDepTime = ''13:05'', prevDelayMinutes = Num 20, aircraftType = ''A321neo'',
      weatherCondition = RAIN\<rparr> = Num (8106479329266893 / 18014398509481984) \<and>
   spec_delayRisk 785 (Num 20) RAIN ''A321neo'' = 0.45 \<and>
   \<bar>8106479329266893 / 18014398509481984 - 0.45\<bar> \<le> (1 / 10 ^ 15 :: real)"
proof -
  have "spec_delayRisk 785 (Num 20) RAIN ''A321neo'' = 0.45"
    by (simp add: spec_delayRisk_def)
  then show ?thesis
    using calculateDelayRisk_f64_formula
      [of "\<lparr>schedDepTime = ''13:05'', prevDelayMinutes = Num 20, aircraftType = ''A321neo'',
            weatherCondition = RAIN\<rparr>" exampleBuiltins]
      minuteOfDay_examples(1) readsTwoDigits_example
    by (simp add: minuteOfDay_examples(2) spec_delayRisk_f64_examples(1))
qed

text \<open>
  C3 (as stated) fails at a 17:00 departure with no inbound delay in fog: the exact
  total of 0.10, 0.20 and 0.30 is 0.6, but the function returns the binary64 number
  just above it, 0.6000000000000001.
\<close>

theorem calculateDelayRisk_f64_not_exact:
  "calculateDelayRisk_f64 exampleBuiltins
     \<lparr>schedDepTime = ''17:00'', prevDelayMinutes = Num 0, aircraftType = ''B737-800'',
      weatherCondition = FOG\<rparr> = Num (1351079888211149 / 2251799813685248) \<and>
   spec_delayRisk (real (minuteOfDay ''17:00'')) (Num 0) FOG ''B737-800'' = 0.6 \<and>
   (1351079888211149 / 2251799813685248 :: real) \<noteq> 0.6"
proof -
  have "parseTime_f64 exampleBuiltins ''17:00'' = Num 1020"
    using parseTime_f64_wellFormed[OF minuteOfDay_examples(3) readsTwoDigits_example]
    by (simp add: minuteOfDay_examples(4))
  then have "calculateDelayRisk_f64 exampleBuiltins
     \<lparr>schedDepTime = ''17:00'', prevDelayMinutes = Num 0, aircraftType = ''B737-800'',
      weatherCondition = FOG\<rparr> = Num (1351079888211149 / 2251799813685248)"
    by (simp add: calculateDelayRisk_f64_spec spec_delayRisk_f64_examples(2))
  moreover have "spec_delayRisk (real (minuteOfDay ''17:00'')) (Num 0) FOG ''B737-800'' = 0.6"
    by (simp add: minuteOfDay_examples(4) spec_delayRisk_def)
  ultimately show ?thesis by simp
qed

subsection \<open>Rotation validation\<close>

lemma adjacentPairs_drop:
  assumes "Suc i < length xs"
  shows "adjacentPairs (drop i xs) = (xs ! i, xs ! Suc i) # adjacentPairs (drop (Suc i) xs)"
proof -
  have "drop i xs = xs ! i # drop (Suc i) xs"
    using assms by (simp add: Cons_nth_drop_Suc)
  moreover have "drop (Suc i) xs = xs ! Suc i # drop (Suc (Suc i)) xs"
    using assms by (simp add: Cons_nth_drop_Suc)
  ultimately show ?thesis by simp
qed

lemma adjacentPairs_short: "length xs \<le> 1 \<Longrightarrow> adjacentPairs xs = []"
  by (cases xs rule: adjacentPairs.cases) simp_all

text \<open>One iteration of the loop body appends the conflicts of the pair at \<open>i\<close>.\<close>

lemma validateLoop_step:
  assumes "Suc i < length xs"
  shows "validateLoop js xs i cs =
           validateLoop js xs (Suc i) (cs @ spec_pairConflicts js (xs ! i, xs ! Suc i))"
proof -
  have g: "int i < int (length xs) - 1" using assms by simp
  have ix: "index xs i = Some (xs ! i)" "index xs (Suc i) = Some (xs ! Suc i)"
    using assms by (simp_all add: index_def)
  show ?thesis
    by (subst validateLoop.simps)
       (simp add: g ix Let_def spec_pairConflicts_def MCT_MINUTES_def)
qed

lemma validateLoop_stop:
  assumes "\<not> Suc i < length xs"
  shows "validateLoop js xs i cs = Inr cs"
proof -
  have g: "\<not> int i < int (length xs) - 1" using assms by simp
  show ?thesis by (subst validateLoop.simps) (simp add: g)
qed

text \<open>The loop never faults and visits the adjacent pairs from \<open>i\<close> on, in order.\<close>

lemma validateLoop_pairs:
  "validateLoop js xs i cs =
     Inr (cs @ concat (map (spec_pairConflicts js) (adjacentPairs (drop i xs))))"
proof (induction "length xs - i" arbitrary: i cs)
  case 0
  then have "\<not> Suc i < length xs" "length (drop i xs) \<le> 1" by simp_all
  then show ?case by (simp add: validateLoop_stop adjacentPairs_short)
next
  case (Suc n)
  show ?case
  proof (cases "Suc i < length xs")
    case True
    have "n = length xs - Suc i" using Suc.hyps(2) by simp
    from Suc.hyps(1)[OF this] show ?thesis
      by (simp add: validateLoop_step[OF True] adjacentPairs_drop[OF True])
  next
    case False
    then have "length (drop i xs) \<le> 1" by simp
    then show ?thesis using False by (simp add: validateLoop_stop adjacentPairs_short)
  qed
qed

lemma validateRotation_result:
  "validateRotation js st r =
     Inr (\<lparr>isValid = (spec_conflicts js (arrays st r) = []),
           conflicts = spec_conflicts js (arrays st r)\<rparr>, afterValidate js st r)"
proof -
  have "validateLoop js (Array_sort (depCompare js) (arrays st r)) 0 [] =
          Inr (spec_conflicts js (arrays st r))"
    by (simp only: validateLoop_pairs spec_conflicts_def drop_0 append_Nil)
  then show ?thesis
    by (simp add: validateRotation_def spread_def sort_in_place_def afterValidate_def)
qed

lemma afterValidate_frame:
  "r < nextRef st \<Longrightarrow> arrays (afterValidate js st k) r = arrays st r"
  by (simp add: afterValidate_def)

lemma afterValidate_nextRef: "nextRef (afterValidate js st k) = Suc (nextRef st)"
  by (simp add: afterValidate_def)

subsubsection \<open>The sorted copy\<close>

lemma mset_insertBy: "mset (insertBy cmp x ys) = add_mset x (mset ys)"
  by (induction ys) simp_all

lemma mset_Array_sort: "mset (Array_sort cmp xs) = mset xs"
  by (induction xs) (simp_all add: Array_sort_def mset_insertBy)

lemma spec_conflicts_short:
  assumes "length legs \<le> 1"
  shows "spec_conflicts js legs = []"
proof -
  have "size (mset (Array_sort (depCompare js) legs)) \<le> 1"
    using assms by (simp only: mset_Array_sort size_mset)
  then have "length (Array_sort (depCompare js) legs) \<le> 1" by simp
  then show ?thesis by (simp add: spec_conflicts_def adjacentPairs_short)
qed

lemma parseTime_values:
  "parseTime exampleBuiltins ''08:00'' = Num 480"
  "parseTime exampleBuiltins ''09:00'' = Num 540"
  "parseTime exampleBuiltins ''10:00'' = Num 600"
  "parseTime exampleBuiltins ''10:20'' = Num 620"
  "parseTime exampleBuiltins ''11:00'' = Num 660"
  "parseTime exampleBuiltins ''12:00'' = Num 720"
  "parseTime exampleBuiltins ''15:00'' = Num 900"
  "parseTime exampleBuiltins ''17:00'' = Num 1020"
  "parseTime exampleBuiltins ''22:00'' = Num 1320"
  by (simp_all add: parseTime_def exampleBuiltins_def readDecimal_def isDigit_def digitVal_def)

lemma Array_sort_LEGS_X:
  "Array_sort (depCompare exampleBuiltins) LEGS_X = [LEGS_X ! 1, LEGS_X ! 0]"
  by (simp add: Array_sort_def LEGS_X_def depCompare_def parseTime_values)

text \<open>
  On legs with well-formed times the comparator is the difference of the departure
  minutes, so the sorted copy is the stable ascending sort by departure minute, and
  the checks of the loop are the checks of the specification.
\<close>

lemma depCompare_wellFormed:
  assumes "readsTwoDigits js" "wellFormedLeg x" "wellFormedLeg y"
  shows "jgt (depCompare js x y) (Num 0) = (\<not> depMinuteOfDay x \<le> depMinuteOfDay y)"
  using assms
  by (auto simp: depCompare_def wellFormedLeg_def depMinuteOfDay_def parseTime_wellFormed)

lemma insertBy_wellFormed:
  assumes "readsTwoDigits js" "wellFormedLeg x" "list_all wellFormedLeg ys"
  shows "insertBy (depCompare js) x ys = insort_key depMinuteOfDay x ys"
  using assms by (induction ys) (simp_all add: depCompare_wellFormed)

lemma Array_sort_wellFormed:
  assumes "readsTwoDigits js" "list_all wellFormedLeg xs"
  shows "Array_sort (depCompare js) xs = sort_key depMinuteOfDay xs"
  using assms(2)
proof (induction xs)
  case Nil
  then show ?case by (simp add: Array_sort_def)
next
  case (Cons x xs)
  then have "Array_sort (depCompare js) xs = sort_key depMinuteOfDay xs" by simp
  moreover have "list_all wellFormedLeg (sort_key depMinuteOfDay xs)"
    using Cons.prems by (simp add: list_all_iff)
  ultimately show ?case
    using Cons.prems assms(1)
    by (simp add: Array_sort_def sort_key_def insertBy_wellFormed)
qed

lemma spec_pairConflicts_wellFormed:
  assumes "readsTwoDigits js" "wellFormedLeg current" "wellFormedLeg next"
  shows "spec_pairConflicts js (current, next) = spec_checkPair js (current, next)"
proof -
  have a: "parseTime js (schedArr current) = Num (real (minuteOfDay (schedArr current)))"
    and d: "parseTime js (schedDep next) = Num (real (minuteOfDay (schedDep next)))"
    using assms by (simp_all add: wellFormedLeg_def parseTime_wellFormed)
  have g: "real (minuteOfDay (schedDep next)) - real (minuteOfDay (schedArr current))
           = real_of_int (int (minuteOfDay (schedDep next)) - int (minuteOfDay (schedArr current)))"
    by simp
  have l: "(real_of_int (int (minuteOfDay (schedDep next)) - int (minuteOfDay (schedArr current))) < 45)
           = (int (minuteOfDay (schedDep next)) - int (minuteOfDay (schedArr current)) < 45)"
    by linarith
  show ?thesis
    unfolding spec_pairConflicts_def spec_checkPair_def Let_def fst_conv snd_conv a d
      jgt.simps jminus.simps jlt.simps g l
    by (simp add: mismatchConflict_def overlapConflict_def mctConflict_def MCT_MINUTES_def)
qed

lemma adjacentPairs_set:
  "(a, b) \<in> set (adjacentPairs xs) \<Longrightarrow> a \<in> set xs \<and> b \<in> set xs"
  by (induction xs rule: adjacentPairs.induct) auto

lemma spec_conflicts_wellFormed:
  assumes "readsTwoDigits js" "list_all wellFormedLeg legs"
  shows "spec_conflicts js legs =
           concat (map (spec_checkPair js) (adjacentPairs (sort_key depMinuteOfDay legs)))"
proof -
  let ?sorted = "sort_key depMinuteOfDay legs"
  have "\<forall>p \<in> set (adjacentPairs ?sorted). spec_pairConflicts js p = spec_checkPair js p"
  proof
    fix p assume p: "p \<in> set (adjacentPairs ?sorted)"
    obtain a b where ab: "p = (a, b)" by (cases p)
    then have "a \<in> set legs" "b \<in> set legs"
      using adjacentPairs_set[of a b ?sorted] p by simp_all
    then have "wellFormedLeg a" "wellFormedLeg b"
      using assms(2) by (simp_all add: list_all_iff)
    then show "spec_pairConflicts js p = spec_checkPair js p"
      unfolding ab using assms(1) by (rule spec_pairConflicts_wellFormed[rotated])
  qed
  then have "map (spec_pairConflicts js) (adjacentPairs ?sorted)
             = map (spec_checkPair js) (adjacentPairs ?sorted)"
    by simp
  then show ?thesis
    by (simp only: spec_conflicts_def Array_sort_wellFormed[OF assms])
qed

lemma wellFormedLeg_examples:
  "list_all wellFormedLeg LEGS_X" "list_all wellFormedLeg LEGS_W"
  by (simp_all add: LEGS_X_def LEGS_W_def wellFormedLeg_def wellFormedTime_def isDigit_def
      twoDigits_def digitVal_def)

lemma showNumber_examples:
  "showNumber (Num 20) = ''20''" "showNumber (Num 45) = ''45''"
  by (simp_all add: showNumber_def showNat.simps char_of_def bit_0)

text \<open>
  C1. On legs with well-formed departure and arrival times, \<open>validateRotation\<close>
  returns, without a fault, the conflicts of the adjacent pairs (current, next) of the
  copy sorted ascending by departure minute (a stable sort), pair after pair, and
  nothing else. For each pair these are: the location mismatch (ERROR, on next's id)
  when current's destination differs from next's origin; then the overlap (ERROR, on
  next's id) when current's arrival minute is greater than next's departure minute; and,
  only without overlap, the MCT violation (WARNING, on next's id) when the gap is
  below 45.
\<close>

theorem validateRotation_adjacent_pairs:
  assumes "readsTwoDigits js" "list_all wellFormedLeg (arrays st legs)"
  shows "\<exists>res st' sortedLegs.
      validateRotation js st legs = Inr (res, st') \<and>
      sortedLegs = sort_key depMinuteOfDay (arrays st legs) \<and>
      sorted (map depMinuteOfDay sortedLegs) \<and>
      mset sortedLegs = mset (arrays st legs) \<and>
      conflicts res = concat (map (spec_checkPair js) (adjacentPairs sortedLegs))"
proof -
  let ?sorted = "sort_key depMinuteOfDay (arrays st legs)"
  let ?cs = "concat (map (spec_checkPair js) (adjacentPairs ?sorted))"
  have run: "validateRotation js st legs =
               Inr (\<lparr>isValid = (?cs = []), conflicts = ?cs\<rparr>, afterValidate js st legs)"
    using validateRotation_result[of js st legs]
    by (simp only: spec_conflicts_wellFormed[OF assms])
  have ord: "sorted (map depMinuteOfDay ?sorted)"
    by (rule sorted_sort_key)
  have perm: "mset ?sorted = mset (arrays st legs)"
    by (rule mset_sort)
  from run ord perm show ?thesis by simp
qed

text \<open>
  Two examples of the specification. A to B (08:00 to 10:00) and C to D (09:00 to 11:00),
  given in the reverse order: the location mismatch and the overlap, both on the second
  leg of the sorted copy, and no MCT warning. A to B (08:00 to 10:00) and B to A leaving
  at 10:20: the MCT warning alone.
\<close>

theorem validateRotation_adjacent_pairs_witness:
  "readsTwoDigits exampleBuiltins \<and>
   list_all wellFormedLeg (arrays storeX 0) \<and>
   sort_key depMinuteOfDay (arrays storeX 0) = [LEGS_X ! 1, LEGS_X ! 0] \<and>
   (\<exists>res st'. validateRotation exampleBuiltins storeX 0 = Inr (res, st') \<and>
      conflicts res =
        [\<lparr>legId = ''x2'', reason = ''Location mismatch: Arr BBB != Dep CCC'',
          severity = ERROR\<rparr>,
         \<lparr>legId = ''x2'', reason = ''Schedule Overlap: Arrives 10:00, Departs 09:00'',
          severity = ERROR\<rparr>]) \<and>
   list_all wellFormedLeg (arrays storeW 0) \<and>
   (\<exists>res st'. validateRotation exampleBuiltins storeW 0 = Inr (res, st') \<and>
      conflicts res =
        [\<lparr>legId = ''w2'', reason = ''MCT Violation: Only 20 min available (Req: 45)'',
          severity = WARNING\<rparr>])"
proof -
  have ax: "arrays storeX 0 = LEGS_X" and aw: "arrays storeW 0 = LEGS_W"
    by (simp_all add: storeX_def storeW_def)
  have wx: "list_all wellFormedLeg (arrays storeX 0)"
    and ww: "list_all wellFormedLeg (arrays storeW 0)"
    by (simp_all add: ax aw wellFormedLeg_examples)
  have sx: "sort_key depMinuteOfDay LEGS_X = [LEGS_X ! 1, LEGS_X ! 0]"
    by (simp add: LEGS_X_def depMinuteOfDay_def minuteOfDay_def twoDigits_def digitVal_def)
  have sw: "sort_key depMinuteOfDay LEGS_W = LEGS_W"
    by (simp add: LEGS_W_def depMinuteOfDay_def minuteOfDay_def twoDigits_def digitVal_def)
  obtain res st' where
    r: "validateRotation exampleBuiltins storeX 0 = Inr (res, st')"
    and c: "conflicts res = concat (map (spec_checkPair exampleBuiltins)
              (adjacentPairs (sort_key depMinuteOfDay (arrays storeX 0))))"
    using validateRotation_adjacent_pairs[OF readsTwoDigits_example wx] by blast
  have cx: "conflicts res =
        [\<lparr>legId = ''x2'', reason = ''Location mismatch: Arr BBB != Dep CCC'',
          severity = ERROR\<rparr>,
         \<lparr>legId = ''x2'', reason = ''Schedule Overlap: Arrives 10:00, Departs 09:00'',
          severity = ERROR\<rparr>]"
    unfolding c ax sx
    by (simp add: LEGS_X_def spec_checkPair_def Let_def minuteOfDay_def twoDigits_def
        digitVal_def)
  obtain res2 st2 where
    r2: "validateRotation exampleBuiltins storeW 0 = Inr (res2, st2)"
    and c2: "conflicts res2 = concat (map (spec_checkPair exampleBuiltins)
              (adjacentPairs (sort_key depMinuteOfDay (arrays storeW 0))))"
    using validateRotation_adjacent_pairs[OF readsTwoDigits_example ww] by blast
  have cw: "conflicts res2 =
        [\<lparr>legId = ''w2'', reason = ''MCT Violation: Only 20 min available (Req: 45)'',
          severity = WARNING\<rparr>]"
    unfolding c2 aw sw
    by (simp add: LEGS_W_def spec_checkPair_def Let_def minuteOfDay_def twoDigits_def
        digitVal_def exampleBuiltins_def showNumber_examples)
  have x: "\<exists>res st'. validateRotation exampleBuiltins storeX 0 = Inr (res, st') \<and>
      conflicts res =
        [\<lparr>legId = ''x2'', reason = ''Location mismatch: Arr BBB != Dep CCC'',
          severity = ERROR\<rparr>,
         \<lparr>legId = ''x2'', reason = ''Schedule Overlap: Arrives 10:00, Departs 09:00'',
          severity = ERROR\<rparr>]"
    using r cx by (intro exI[of _ res] exI[of _ st']) simp
  have w: "\<exists>res st'. validateRotation exampleBuiltins storeW 0 = Inr (res, st') \<and>
      conflicts res =
        [\<lparr>legId = ''w2'', reason = ''MCT Violation: Only 20 min available (Req: 45)'',
          severity = WARNING\<rparr>]"
    using r2 cw by (intro exI[of _ res2] exI[of _ st2]) simp
  show ?thesis
    using readsTwoDigits_example wx ww sx x w by (simp only: ax simp_thms)
qed

text \<open>
  C2. \<open>validateRotation\<close> never faults, its \<open>isValid\<close> is true exactly when its
  conflict list is empty (so a single conflict of either severity makes it false), and
  on zero or one leg it returns \<open>isValid = true\<close> with no conflict.
\<close>

theorem validateRotation_isValid:
  "\<exists>res st'. validateRotation js st legs = Inr (res, st') \<and>
      (isValid res \<longleftrightarrow> conflicts res = []) \<and>
      (length (arrays st legs) \<le> 1 \<longrightarrow> isValid res \<and> conflicts res = [])"
proof -
  let ?cs = "spec_conflicts js (arrays st legs)"
  have run: "validateRotation js st legs =
               Inr (\<lparr>isValid = (?cs = []), conflicts = ?cs\<rparr>, afterValidate js st legs)"
    by (rule validateRotation_result)
  have short: "length (arrays st legs) \<le> 1 \<longrightarrow> ?cs = []"
    by (simp add: spec_conflicts_short)
  from run short show ?thesis by simp
qed

lemma spec_conflicts_LEGS_W:
  "spec_conflicts exampleBuiltins LEGS_W = [mctConflict exampleBuiltins (Num 20) (LEGS_W ! 1)]"
proof -
  have "Array_sort (depCompare exampleBuiltins) LEGS_W = LEGS_W"
    by (simp add: Array_sort_def LEGS_W_def depCompare_def parseTime_values)
  then show ?thesis
    unfolding spec_conflicts_def
    by (simp add: LEGS_W_def spec_pairConflicts_def parseTime_values Let_def)
qed

text \<open>
  A rotation of the single leg a1 and the empty rotation are valid; the rotation with
  the 20 minute gap has the single WARNING and is not valid.
\<close>

theorem validateRotation_isValid_witness:
  "length (arrays \<lparr>arrays = (\<lambda>_. [])(0 := [LEGS_A ! 0]), nextRef = 2\<rparr> 0) \<le> 1 \<and>
   (\<exists>res st'. validateRotation exampleBuiltins
                 \<lparr>arrays = (\<lambda>_. [])(0 := [LEGS_A ! 0]), nextRef = 2\<rparr> 0 = Inr (res, st') \<and>
               isValid res \<and> conflicts res = []) \<and>
   length (arrays \<lparr>arrays = (\<lambda>_. [])(0 := [LEGS_A ! 0]), nextRef = 2\<rparr> 1) \<le> 1 \<and>
   (\<exists>res st'. validateRotation exampleBuiltins
                 \<lparr>arrays = (\<lambda>_. [])(0 := [LEGS_A ! 0]), nextRef = 2\<rparr> 1 = Inr (res, st') \<and>
               isValid res \<and> conflicts res = []) \<and>
   (\<exists>res st'. validateRotation exampleBuiltins storeW 0 = Inr (res, st') \<and>
               \<not> isValid res \<and> map severity (conflicts res) = [WARNING] \<and>
               map legId (conflicts res) = [''w2''])"
proof -
  let ?st = "\<lparr>arrays = (\<lambda>_. [])(0 := [LEGS_A ! 0]), nextRef = 2\<rparr>"
  have one: "length (arrays ?st 0) \<le> 1 \<and>
      (\<exists>res st'. validateRotation exampleBuiltins ?st 0 = Inr (res, st') \<and>
         isValid res \<and> conflicts res = [])"
    using validateRotation_isValid[of exampleBuiltins ?st 0] by auto
  have none: "length (arrays ?st 1) \<le> 1 \<and>
      (\<exists>res st'. validateRotation exampleBuiltins ?st 1 = Inr (res, st') \<and>
         isValid res \<and> conflicts res = [])"
    using validateRotation_isValid[of exampleBuiltins ?st 1] by auto
  obtain res st' where r: "validateRotation exampleBuiltins storeW 0 = Inr (res, st')"
    and v: "isValid res \<longleftrightarrow> conflicts res = []"
    using validateRotation_isValid[of exampleBuiltins storeW 0] by blast
  have c: "conflicts res = [mctConflict exampleBuiltins (Num 20) (LEGS_W ! 1)]"
    using r by (auto simp: validateRotation_result storeW_def spec_conflicts_LEGS_W)
  then have "\<not> isValid res" using v by simp
  moreover have "map severity (conflicts res) = [WARNING]" "map legId (conflicts res) = [''w2'']"
    by (simp_all add: c mctConflict_def LEGS_W_def)
  ultimately have "\<exists>res st'. validateRotation exampleBuiltins storeW 0 = Inr (res, st') \<and>
               \<not> isValid res \<and> map severity (conflicts res) = [WARNING] \<and>
               map legId (conflicts res) = [''w2'']"
    using r by (intro exI[of _ res] exI[of _ st']) simp
  with one none show ?thesis by (intro conjI) simp_all
qed

text \<open>
  C7. \<open>validateRotation\<close> leaves the caller's array as it was, same elements in the
  same order; so it leaves every array that existed before the call. The only array
  written is the copy it allocates.
\<close>

theorem validateRotation_frame:
  assumes "legs < nextRef st"
  shows "\<exists>res st'. validateRotation js st legs = Inr (res, st') \<and>
           arrays st' legs = arrays st legs \<and>
           (\<forall>r. r < nextRef st \<longrightarrow> arrays st' r = arrays st r)"
proof -
  let ?st' = "afterValidate js st legs"
  have run: "\<exists>res. validateRotation js st legs = Inr (res, ?st')"
    by (simp add: validateRotation_result)
  have old: "\<forall>r. r < nextRef st \<longrightarrow> arrays ?st' r = arrays st r"
    by (simp add: afterValidate_frame)
  then have "arrays ?st' legs = arrays st legs"
    using assms by simp
  with run old show ?thesis by blast
qed

text \<open>
  The caller's array keeps the order 09:00, 08:00 while the copy, at the new reference
  1, is sorted.
\<close>

theorem validateRotation_frame_witness:
  "0 < nextRef storeX \<and>
   (\<exists>res st'. validateRotation exampleBuiltins storeX 0 = Inr (res, st') \<and>
      arrays st' 0 = LEGS_X \<and> arrays st' 1 = [LEGS_X ! 1, LEGS_X ! 0])"
proof -
  have l: "0 < nextRef storeX" by (simp add: storeX_def)
  obtain res st' where r: "validateRotation exampleBuiltins storeX 0 = Inr (res, st')"
    and f: "arrays st' 0 = arrays storeX 0"
    using validateRotation_frame[OF l, of exampleBuiltins] by blast
  have "st' = afterValidate exampleBuiltins storeX 0"
    using r by (simp add: validateRotation_result)
  then have "arrays st' 1 = [LEGS_X ! 1, LEGS_X ! 0]"
    by (simp add: afterValidate_def storeX_def Array_sort_LEGS_X)
  then show ?thesis using l r f by (simp add: storeX_def)
qed

subsection \<open>Maintenance risk with exact arithmetic\<close>

lemma calculateMaintenanceRisk_finite:
  assumes "ageYears ac = Num a" "cycles ac = Num c" "snagCount ac = Num s"
  shows "calculateMaintenanceRisk js now ac =
           Num (spec_maintenanceRisk a c s (spec_daysSince js now ac))"
proof (cases "jsDateTime js (lastMaintenance ac)")
  case NaN
  then show ?thesis
    by (simp add: calculateMaintenanceRisk_def Let_def assms spec_maintenanceRisk_def
        spec_daysSince_def)
next
  case (Num t)
  then show ?thesis
    by (simp add: calculateMaintenanceRisk_def Let_def assms spec_maintenanceRisk_def
        spec_daysSince_def)
qed

lemma clamp_01: "0 \<le> min (max x 0) (1::real) \<and> min (max x 0) 1 \<le> 1"
  by (simp add: min_def max_def)

lemma spec_maintenanceRisk_range:
  "0 \<le> spec_maintenanceRisk a c s d \<and> spec_maintenanceRisk a c s d \<le> 1"
  unfolding spec_maintenanceRisk_def by (rule clamp_01)

lemma jplus_NaN_right: "jplus x NaN = NaN"
  by (cases x) simp_all

text \<open>A \<open>NaN\<close> in one of the three numeric fields reaches the result.\<close>

lemma calculateMaintenanceRisk_NaN:
  assumes "ageYears ac = NaN \<or> cycles ac = NaN \<or> snagCount ac = NaN"
  shows "calculateMaintenanceRisk js now ac = NaN"
  using assms by (auto simp: calculateMaintenanceRisk_def Let_def jplus_NaN_right)

lemma calculateMaintenanceRisk_cases:
  "calculateMaintenanceRisk js now ac = NaN \<or>
   (\<exists>r. calculateMaintenanceRisk js now ac = Num r \<and> 0 \<le> r \<and> r \<le> 1)"
proof (cases "ageYears ac = NaN \<or> cycles ac = NaN \<or> snagCount ac = NaN")
  case True
  then show ?thesis by (simp add: calculateMaintenanceRisk_NaN)
next
  case False
  then obtain a c s where "ageYears ac = Num a" "cycles ac = Num c" "snagCount ac = Num s"
    by (metis jsnum.exhaust)
  then show ?thesis
    using spec_maintenanceRisk_range by (simp add: calculateMaintenanceRisk_finite)
qed

lemma exampleRisks:
  "calculateMaintenanceRisk exampleBuiltins exampleNow AC_A = Num 0.765"
  "calculateMaintenanceRisk exampleBuiltins exampleNow AC_B = Num 0.092"
  by (simp_all add: calculateMaintenanceRisk_def Let_def AC_A_def AC_B_def exampleNow_def
      exampleBuiltins_def exampleDates_def)

subsection \<open>Maintenance risk in binary64\<close>

lemma f64_round_numeral:
  "(numeral n :: int) < 2 ^ 53 \<Longrightarrow> f64_round (numeral n) = numeral n"
  using f64_round_int[of "numeral n"] by simp

lemma dayLength_f64:
  "f64_mul (f64_mul (Num 1000) (Num 3600)) (Num 24) = Num 86400000"
  by (simp add: f64_round_numeral)

lemma daysSince_f64:
  "f64_div (f64_sub (Num now) (jsDateTime js (lastMaintenance ac)))
           (f64_mul (f64_mul (Num 1000) (Num 3600)) (Num 24)) = spec_daysSince_f64 js now ac"
  unfolding dayLength_f64
  by (cases "jsDateTime js (lastMaintenance ac)") (simp_all add: spec_daysSince_f64_def)

lemma if_Num: "(if c then Num x else Num y) = Num (if c then x else y)"
  by simp

lemma calculateMaintenanceRisk_f64_spec:
  assumes "ageYears ac = Num a" "cycles ac = Num c" "snagCount ac = Num s"
  shows "calculateMaintenanceRisk_f64 js now ac =
           Num (spec_maintenanceRisk_f64 a c s (spec_daysSince_f64 js now ac))"
  unfolding calculateMaintenanceRisk_f64_def Let_def daysSince_f64
  unfolding spec_maintenanceRisk_f64_def Let_def assms f64_def f64_mul.simps f64_div.simps
    f64_add.simps if_Num
  by (simp only: Math_max.simps Math_min.simps)

lemma spec_maintenanceRisk_f64_range:
  "0 \<le> spec_maintenanceRisk_f64 a c s d \<and> spec_maintenanceRisk_f64 a c s d \<le> 1"
proof -
  obtain r where "spec_maintenanceRisk_f64 a c s d = min (max r 0) 1"
    unfolding spec_maintenanceRisk_f64_def Let_def by blast
  then show ?thesis by (simp add: min_def max_def)
qed

text \<open>The two worked examples, one rounding at a time.\<close>

lemma maintenance_steps:
  "f64_round (12 * (1080863910568919 / 72057594037927936)) = 3242591731706757 / 18014398509481984"
  "f64_round ((3602879701896397 / 72057594037927936) + (3242591731706757 / 18014398509481984)) = 517913957147607 / 2251799813685248"
  "f64_round (14500 / 10000) = 6530219459687219 / 4503599627370496"
  "f64_round ((6530219459687219 / 4503599627370496) * (3602879701896397 / 36028797018963968)) = 5224175567749775 / 36028797018963968"
  "f64_round ((517913957147607 / 2251799813685248) + (5224175567749775 / 36028797018963968)) = 3 / 8"
  "f64_round (3 * (5764607523034235 / 72057594037927936)) = 1080863910568919 / 4503599627370496"
  "f64_round ((3 / 8) + (1080863910568919 / 4503599627370496)) = 2769713770832855 / 4503599627370496"
  "f64_round ((2769713770832855 / 4503599627370496) + (5404319552844595 / 36028797018963968)) = 6890507429876859 / 9007199254740992"
  "f64_round (10 * (1080863910568919 / 72057594037927936)) = 5404319552844595 / 36028797018963968"
  "f64_round ((3602879701896397 / 72057594037927936) + (5404319552844595 / 36028797018963968)) = 3602879701896397 / 18014398509481984"
  "f64_round (0 / 10000) = 0"
  "f64_round (0 * (3602879701896397 / 36028797018963968)) = 0"
  "f64_round ((3602879701896397 / 18014398509481984) + 0) = 3602879701896397 / 18014398509481984"
  "f64_round (5 * (5764607523034235 / 72057594037927936)) = 3602879701896397 / 9007199254740992"
  "f64_round ((3602879701896397 / 18014398509481984) + (3602879701896397 / 9007199254740992)) = 1351079888211149 / 2251799813685248"
proof -
  show "f64_round (12 * (1080863910568919 / 72057594037927936)) = 3242591731706757 / 18014398509481984"
    by (subst f64_round_eqI[where e = "- 3"], simp_all add: rhe_def power_int_minus)
  show "f64_round ((3602879701896397 / 72057594037927936) + (3242591731706757 / 18014398509481984)) = 517913957147607 / 2251799813685248"
    by (subst f64_round_eqI[where e = "- 3"], simp_all add: rhe_def power_int_minus)
  show "f64_round (14500 / 10000) = 6530219459687219 / 4503599627370496"
    by (subst f64_round_eqI[where e = "0"], simp_all add: rhe_def power_int_minus)
  show "f64_round ((6530219459687219 / 4503599627370496) * (3602879701896397 / 36028797018963968)) = 5224175567749775 / 36028797018963968"
    by (subst f64_round_eqI[where e = "- 3"], simp_all add: rhe_def power_int_minus)
  show "f64_round ((517913957147607 / 2251799813685248) + (5224175567749775 / 36028797018963968)) = 3 / 8"
    by (subst f64_round_eqI[where e = "- 2"], simp_all add: rhe_def power_int_minus)
  show "f64_round (3 * (5764607523034235 / 72057594037927936)) = 1080863910568919 / 4503599627370496"
    by (subst f64_round_eqI[where e = "- 3"], simp_all add: rhe_def power_int_minus)
  show "f64_round ((3 / 8) + (1080863910568919 / 4503599627370496)) = 2769713770832855 / 4503599627370496"
    by (subst f64_round_eqI[where e = "- 1"], simp_all add: rhe_def power_int_minus)
  show "f64_round ((2769713770832855 / 4503599627370496) + (5404319552844595 / 36028797018963968)) = 6890507429876859 / 9007199254740992"
    by (subst f64_round_eqI[where e = "- 1"], simp_all add: rhe_def power_int_minus)
  show "f64_round (10 * (1080863910568919 / 72057594037927936)) = 5404319552844595 / 36028797018963968"
    by (subst f64_round_eqI[where e = "- 3"], simp_all add: rhe_def power_int_minus)
  show "f64_round ((3602879701896397 / 72057594037927936) + (5404319552844595 / 36028797018963968)) = 3602879701896397 / 18014398509481984"
    by (subst f64_round_eqI[where e = "- 3"], simp_all add: rhe_def power_int_minus)
  show "f64_round (0 / 10000) = 0"
    by (simp add: f64_round_0)
  show "f64_round (0 * (3602879701896397 / 36028797018963968)) = 0"
    by (simp add: f64_round_0)
  show "f64_round ((3602879701896397 / 18014398509481984) + 0) = 3602879701896397 / 18014398509481984"
    by (subst f64_round_eqI[where e = "- 3"], simp_all add: rhe_def power_int_minus)
  show "f64_round (5 * (5764607523034235 / 72057594037927936)) = 3602879701896397 / 9007199254740992"
    by (subst f64_round_eqI[where e = "- 2"], simp_all add: rhe_def power_int_minus)
  show "f64_round ((3602879701896397 / 18014398509481984) + (3602879701896397 / 9007199254740992)) = 1351079888211149 / 2251799813685248"
    by (subst f64_round_eqI[where e = "- 1"], simp_all add: rhe_def power_int_minus)
qed

lemma spec_daysSince_f64_examples:
  "spec_daysSince_f64 exampleBuiltins exampleNow AC_A = Num 45"
  "spec_daysSince_f64 exampleBuiltins exampleNow AC_R = Num 14"
  by (simp_all add: spec_daysSince_f64_def AC_A_def AC_R_def exampleBuiltins_def
      exampleDates_def exampleNow_def f64_round_numeral)

lemma spec_maintenanceRisk_f64_examples:
  "spec_maintenanceRisk_f64 12 14500 3 (Num 45) = 6890507429876859 / 9007199254740992"
  "spec_maintenanceRisk_f64 10 0 5 (Num 14) = 1351079888211149 / 2251799813685248"
proof -
  have a: "spec_maintenanceRisk_f64 12 14500 3 (Num 45) =
      min (max (f64_round (f64_round (f64_round (f64_round (f64_round 0.05
                  + f64_round (12 * f64_round 0.015))
                  + f64_round (f64_round (14500 / 10000) * f64_round 0.1))
                  + f64_round (3 * f64_round 0.08)) + f64_round 0.15)) 0) 1"
    by (simp add: spec_maintenanceRisk_f64_def Let_def)
  have b: "f64_round (f64_round (f64_round (f64_round (f64_round 0.05
                  + f64_round (12 * f64_round 0.015))
                  + f64_round (f64_round (14500 / 10000) * f64_round 0.1))
                  + f64_round (3 * f64_round 0.08)) + f64_round 0.15)
           = 6890507429876859 / 9007199254740992"
    by (simp only: f64_literals maintenance_steps)
  show "spec_maintenanceRisk_f64 12 14500 3 (Num 45) = 6890507429876859 / 9007199254740992"
    unfolding a b by simp
  have a': "spec_maintenanceRisk_f64 10 0 5 (Num 14) =
      min (max (f64_round (f64_round (f64_round (f64_round 0.05
                  + f64_round (10 * f64_round 0.015))
                  + f64_round (f64_round (0 / 10000) * f64_round 0.1))
                  + f64_round (5 * f64_round 0.08))) 0) 1"
    by (simp add: spec_maintenanceRisk_f64_def Let_def)
  have b': "f64_round (f64_round (f64_round (f64_round 0.05
                  + f64_round (10 * f64_round 0.015))
                  + f64_round (f64_round (0 / 10000) * f64_round 0.1))
                  + f64_round (5 * f64_round 0.08))
           = 1351079888211149 / 2251799813685248"
    by (simp only: f64_literals maintenance_steps)
  show "spec_maintenanceRisk_f64 10 0 5 (Num 14) = 1351079888211149 / 2251799813685248"
    unfolding a' b' by simp
qed

text \<open>
  C4 (as amended). For every aircraft whose age, cycles and snag count are numbers, and
  every clock reading, the result is the rule of the specification evaluated in
  binary64: 0.05, plus age times 0.015, plus (cycles / 10000) times 0.10, plus snag
  count times 0.08, plus 0.15 when the days since the last maintenance exceed 30 (never,
  when that date does not parse), every product, quotient and sum rounded once,
  clamped to [0, 1]; so it lies in [0, 1].
\<close>

theorem calculateMaintenanceRisk_f64_formula:
  assumes "ageYears ac = Num a" "cycles ac = Num c" "snagCount ac = Num s"
  shows "calculateMaintenanceRisk_f64 js now ac =
           Num (spec_maintenanceRisk_f64 a c s (spec_daysSince_f64 js now ac)) \<and>
         0 \<le> spec_maintenanceRisk_f64 a c s (spec_daysSince_f64 js now ac) \<and>
         spec_maintenanceRisk_f64 a c s (spec_daysSince_f64 js now ac) \<le> 1"
  using calculateMaintenanceRisk_f64_spec[OF assms] spec_maintenanceRisk_f64_range
  by simp

text \<open>
  The aircraft TC-JNA on 2023-11-15, 45 days after its last maintenance: the exact
  total is 0.765 and the result is the binary64 number next to it.
\<close>

theorem calculateMaintenanceRisk_f64_formula_witness:
  "ageYears AC_A = Num 12 \<and> cycles AC_A = Num 14500 \<and> snagCount AC_A = Num 3 \<and>
   spec_daysSince_f64 exampleBuiltins exampleNow AC_A = Num 45 \<and>
   calculateMaintenanceRisk_f64 exampleBuiltins exampleNow AC_A =
     Num (6890507429876859 / 9007199254740992) \<and>
   spec_maintenanceRisk 12 14500 3 (Num 45) = 0.765 \<and>
   \<bar>6890507429876859 / 9007199254740992 - 0.765\<bar> \<le> (1 / 10 ^ 15 :: real)"
proof -
  have f: "ageYears AC_A = Num 12" "cycles AC_A = Num 14500" "snagCount AC_A = Num 3"
    by (simp_all add: AC_A_def)
  have "spec_maintenanceRisk 12 14500 3 (Num 45) = 0.765"
    by (simp add: spec_maintenanceRisk_def)
  then show ?thesis
    using calculateMaintenanceRisk_f64_formula[OF f, of exampleBuiltins exampleNow] f
    by (simp add: spec_daysSince_f64_examples(1) spec_maintenanceRisk_f64_examples(1))
qed

text \<open>
  C4 (as stated) fails on an aircraft ten years old with no cycles and five snags,
  maintained 14 days ago: the exact total of 0.05, 0.15 and 0.40 is 0.6, but the
  function returns the binary64 number just above it, 0.6000000000000001.
\<close>

theorem calculateMaintenanceRisk_f64_not_exact:
  "calculateMaintenanceRisk_f64 exampleBuiltins exampleNow AC_R =
     Num (1351079888211149 / 2251799813685248) \<and>
   spec_maintenanceRisk 10 0 5 (spec_daysSince exampleBuiltins exampleNow AC_R) = 0.6 \<and>
   (1351079888211149 / 2251799813685248 :: real) \<noteq> 0.6"
proof -
  have f: "ageYears AC_R = Num 10" "cycles AC_R = Num 0" "snagCount AC_R = Num 5"
    by (simp_all add: AC_R_def)
  have "calculateMaintenanceRisk_f64 exampleBuiltins exampleNow AC_R =
     Num (1351079888211149 / 2251799813685248)"
    by (simp add: calculateMaintenanceRisk_f64_spec[OF f] spec_daysSince_f64_examples(2)
        spec_maintenanceRisk_f64_examples(2))
  moreover have "spec_daysSince exampleBuiltins exampleNow AC_R = Num 14"
    by (simp add: spec_daysSince_def AC_R_def exampleBuiltins_def exampleDates_def
        exampleNow_def)
  then have "spec_maintenanceRisk 10 0 5 (spec_daysSince exampleBuiltins exampleNow AC_R) = 0.6"
    by (simp add: spec_maintenanceRisk_def)
  ultimately show ?thesis by simp
qed

subsection \<open>Tail swap\<close>

text \<open>
  The result of \<open>optimizeTailSwap\<close> on two allocated arrays, in terms of the two base
  risks, the two loads and the two validations.
\<close>

lemma optimizeTailSwap_result:
  assumes "legs1 < nextRef st" "legs2 < nextRef st"
    and a_def: "a = calculateMaintenanceRisk js now1 ac1"
    and b_def: "b = calculateMaintenanceRisk js now2 ac2"
    and la_def: "la = length (arrays st legs1)"
    and lb_def: "lb = length (arrays st legs2)"
    and feas_def: "feas = (spec_conflicts js (arrays st legs2) = [] \<and>
                           spec_conflicts js (arrays st legs1) = [])"
  shows "optimizeTailSwap js now1 now2 st ac1 legs1 ac2 legs2 =
     Inr (\<lparr>aircraftA = ac1, aircraftB = ac2,
           riskScoreA = fst (spec_newRisks a b la lb),
           riskScoreB = snd (spec_newRisks a b la lb),
           improvement = spec_improvement a b (spec_newRisks a b la lb),
           feasible = feas,
           recommendation =
             spec_recommendation feas (spec_improvement a b (spec_newRisks a b la lb))\<rparr>,
          afterValidate js (afterValidate js st legs2) legs1)"
proof -
  let ?st1 = "afterValidate js st legs2"
  let ?st2 = "afterValidate js ?st1 legs1"
  have f1: "arrays ?st1 legs1 = arrays st legs1"
    using assms(1) by (rule afterValidate_frame)
  have l1: "legs1 < nextRef ?st1" "legs2 < nextRef ?st1"
    using assms(1,2) by (simp_all add: afterValidate_nextRef)
  have f2: "arrays ?st2 legs1 = arrays st legs1" "arrays ?st2 legs2 = arrays st legs2"
    using l1 assms(1,2) by (simp_all add: afterValidate_frame)
  have v2: "validateRotation js st legs2 =
      Inr (\<lparr>isValid = (spec_conflicts js (arrays st legs2) = []),
            conflicts = spec_conflicts js (arrays st legs2)\<rparr>, ?st1)"
    by (rule validateRotation_result)
  have v1: "validateRotation js ?st1 legs1 =
      Inr (\<lparr>isValid = (spec_conflicts js (arrays st legs1) = []),
            conflicts = spec_conflicts js (arrays st legs1)\<rparr>, ?st2)"
    using validateRotation_result[of js ?st1 legs1] by (simp only: f1)
  show ?thesis
    by (simp only: optimizeTailSwap_def Let_def v2 v1 f2 sum.case prod.case
        ValidationResult.simps case_prod_beta fst_conv snd_conv
        spec_newRisks_def spec_improvement_def spec_recommendation_def
        a_def b_def la_def lb_def feas_def)
qed

text \<open>
  The arithmetic behind the improvement: with \<open>x > y \<ge> 0\<close>, a fifth of \<open>x\<close> is more
  than a tenth of \<open>y\<close>.
\<close>

lemma improvement_positive:
  fixes x y :: real
  assumes "y < x" "0 \<le> y"
  shows "0 < (x + y - (x * 0.8 + y * 1.1)) * 100"
proof -
  have "(x + y - (x * 0.8 + y * 1.1)) * 100 = 20 * x - 10 * y" by (simp add: algebra_simps)
  also have "\<dots> > 0" using assms by simp
  finally show ?thesis .
qed

lemma improvement_positive':
  fixes x y :: real
  assumes "y < x" "0 \<le> y"
  shows "0 < (y + x - (y * 1.1 + x * 0.8)) * 100"
  using improvement_positive[OF assms] by (simp add: algebra_simps)

lemma spec_improvement_NaN:
  assumes "a = NaN \<or> b = NaN"
  shows "spec_improvement a b (spec_newRisks a b la lb) = NaN"
proof -
  have "spec_newRisks a b la lb = (a, b)"
    using assms by (cases a; cases b) (auto simp: spec_newRisks_def)
  moreover have "jplus a b = NaN"
    using assms by (cases a; cases b) auto
  ultimately show ?thesis by (simp add: spec_improvement_def)
qed

lemma spec_improvement_Num:
  assumes "0 \<le> x" "0 \<le> y"
  shows "\<exists>v. spec_improvement (Num x) (Num y) (spec_newRisks (Num x) (Num y) la lb) = Num v \<and>
             0 \<le> v \<and>
             (0 < v \<longleftrightarrow> (y < x \<and> lb < la) \<or> (x < y \<and> la < lb))"
proof -
  consider (up1) "y < x \<and> lb < la" | (up2) "\<not> (y < x \<and> lb < la)" "x < y \<and> la < lb"
    | (none) "\<not> (y < x \<and> lb < la)" "\<not> (x < y \<and> la < lb)"
    by blast
  then show ?thesis
  proof cases
    case up1
    then have "spec_improvement (Num x) (Num y) (spec_newRisks (Num x) (Num y) la lb)
                 = Num ((x + y - (x * 0.8 + y * 1.1)) * 100)"
      by (simp add: spec_newRisks_def spec_improvement_def)
    moreover have "0 < (x + y - (x * 0.8 + y * 1.1)) * 100"
      using up1 assms by (intro improvement_positive) simp_all
    ultimately show ?thesis using up1 by (intro exI[of _ "(x + y - (x * 0.8 + y * 1.1)) * 100"]) simp
  next
    case up2
    then have "spec_newRisks (Num x) (Num y) la lb = (jtimes (Num x) (Num 1.1), jtimes (Num y) (Num 0.8))"
      by (simp only: spec_newRisks_def jgt.simps if_False if_True simp_thms)
    then have "spec_improvement (Num x) (Num y) (spec_newRisks (Num x) (Num y) la lb)
                 = Num ((x + y - (x * 1.1 + y * 0.8)) * 100)"
      by (simp add: spec_improvement_def)
    moreover have "0 < (x + y - (x * 1.1 + y * 0.8)) * 100"
      using up2 assms by (intro improvement_positive') simp_all
    ultimately show ?thesis using up2 by (intro exI[of _ "(x + y - (x * 1.1 + y * 0.8)) * 100"]) simp
  next
    case none
    then have "spec_newRisks (Num x) (Num y) la lb = (Num x, Num y)"
      by (simp only: spec_newRisks_def jgt.simps if_False simp_thms)
    then have "spec_improvement (Num x) (Num y) (spec_newRisks (Num x) (Num y) la lb) = Num 0"
      by (simp add: spec_improvement_def)
    then show ?thesis using none by simp
  qed
qed

lemma spec_improvement_sign:
  assumes ra: "a = NaN \<or> (\<exists>r. a = Num r \<and> 0 \<le> r \<and> r \<le> 1)"
    and rb: "b = NaN \<or> (\<exists>r. b = Num r \<and> 0 \<le> r \<and> r \<le> 1)"
    and i: "imp = spec_improvement a b (spec_newRisks a b la lb)"
    and u: "up = ((jgt a b \<and> lb < la) \<or> (jgt b a \<and> la < lb))"
  shows "\<not> jlt imp (Num 0) \<and> (jgt imp (Num 0) \<longleftrightarrow> up) \<and>
         (a \<noteq> NaN \<and> b \<noteq> NaN \<longrightarrow> jge imp (Num 0) \<and> (\<not> up \<longrightarrow> imp = Num 0))"
proof (cases "a = NaN \<or> b = NaN")
  case True
  then have "imp = NaN" unfolding i by (rule spec_improvement_NaN)
  moreover have "\<not> up" using True unfolding u by (cases a; cases b) auto
  ultimately show ?thesis using True by simp
next
  case False
  then obtain x y where xy: "a = Num x" "b = Num y" "0 \<le> x" "0 \<le> y"
    using ra rb by auto
  obtain v where v: "imp = Num v" "0 \<le> v" "0 < v \<longleftrightarrow> (y < x \<and> lb < la) \<or> (x < y \<and> la < lb)"
    using spec_improvement_Num[OF xy(3,4), of la lb] unfolding i xy by blast
  have "up = ((y < x \<and> lb < la) \<or> (x < y \<and> la < lb))"
    unfolding u xy by simp
  then show ?thesis using v by auto
qed

lemma Array_sort_LEGS_A: "Array_sort (depCompare exampleBuiltins) LEGS_A = LEGS_A"
  by (simp add: Array_sort_def LEGS_A_def depCompare_def parseTime_values)

lemma Array_sort_LEGS_B: "Array_sort (depCompare exampleBuiltins) LEGS_B = LEGS_B"
  by (simp add: Array_sort_def LEGS_B_def depCompare_def parseTime_values)

lemma spec_conflicts_LEGS_A: "spec_conflicts exampleBuiltins LEGS_A = []"
  unfolding spec_conflicts_def Array_sort_LEGS_A
  by (simp add: LEGS_A_def spec_pairConflicts_def parseTime_values Let_def)

lemma spec_conflicts_LEGS_B: "spec_conflicts exampleBuiltins LEGS_B = []"
  unfolding spec_conflicts_def Array_sort_LEGS_B
  by (simp add: LEGS_B_def spec_pairConflicts_def parseTime_values Let_def)

lemma exampleStore_arrays:
  "arrays exampleStore 0 = LEGS_A" "arrays exampleStore 1 = LEGS_B"
  "0 < nextRef exampleStore" "1 < nextRef exampleStore"
  "length LEGS_A = 3" "length LEGS_B = 2"
  "arrays exampleStore (Suc 0) = LEGS_B" "Suc 0 < nextRef exampleStore"
  by (simp_all add: exampleStore_def LEGS_A_def LEGS_B_def)



text \<open>
  C6. \<open>feasible\<close> is true exactly when the validation of the second leg set and the
  validation of the first leg set are both valid, and the recommendation is chosen in
  this order: not feasible; improvement above 5; improvement above 0; keep.
\<close>

theorem optimizeTailSwap_recommendation:
  assumes "legs1 < nextRef st" "legs2 < nextRef st"
  shows "\<exists>sc st' vB stB vA stA.
      optimizeTailSwap js now1 now2 st ac1 legs1 ac2 legs2 = Inr (sc, st') \<and>
      validateRotation js st legs2 = Inr (vB, stB) \<and>
      validateRotation js st legs1 = Inr (vA, stA) \<and>
      feasible sc = (isValid vB \<and> isValid vA) \<and>
      recommendation sc =
        (if \<not> feasible sc then ''Swap not feasible due to rotation conflicts.''
         else if jgt (improvement sc) (Num 5)
         then ''STRONG RECOMMENDATION: Swap tails to mitigate maintenance risk on tight rotation.''
         else if jgt (improvement sc) (Num 0) then ''Marginal benefit. Swap at discretion.''
         else ''Keep current assignment.'')"
  unfolding optimizeTailSwap_result[OF assms refl refl refl refl refl] validateRotation_result
  by (simp add: spec_recommendation_def)

text \<open>The mock data of the page: both rotations are valid, improvement 14.38.\<close>

theorem optimizeTailSwap_recommendation_witness:
  "0 < nextRef exampleStore \<and> 1 < nextRef exampleStore \<and>
   (\<exists>sc st'. optimizeTailSwap exampleBuiltins exampleNow exampleNow exampleStore AC_A 0 AC_B 1
                = Inr (sc, st') \<and>
      feasible sc \<and>
      recommendation sc =
        ''STRONG RECOMMENDATION: Swap tails to mitigate maintenance risk on tight rotation.'')"
proof -
  obtain sc st' vB stB vA stA where
    o: "optimizeTailSwap exampleBuiltins exampleNow exampleNow exampleStore AC_A 0 AC_B 1
          = Inr (sc, st')"
    and vb: "validateRotation exampleBuiltins exampleStore 1 = Inr (vB, stB)"
    and va: "validateRotation exampleBuiltins exampleStore 0 = Inr (vA, stA)"
    and f: "feasible sc = (isValid vB \<and> isValid vA)"
    and r: "recommendation sc =
        (if \<not> feasible sc then ''Swap not feasible due to rotation conflicts.''
         else if jgt (improvement sc) (Num 5)
         then ''STRONG RECOMMENDATION: Swap tails to mitigate maintenance risk on tight rotation.''
         else if jgt (improvement sc) (Num 0) then ''Marginal benefit. Swap at discretion.''
         else ''Keep current assignment.'')"
    using optimizeTailSwap_recommendation
            [OF exampleStore_arrays(3,4), of exampleBuiltins exampleNow exampleNow AC_A AC_B]
    by blast
  have "isValid vB" "isValid vA"
    using vb va
    by (auto simp: validateRotation_result exampleStore_arrays spec_conflicts_LEGS_A
        spec_conflicts_LEGS_B)
  then have fe: "feasible sc" using f by simp
  have "improvement sc = Num 14.38"
    using o optimizeTailSwap_result
              [OF exampleStore_arrays(3,4) refl refl refl refl refl,
               where js = exampleBuiltins and ?now1.0 = exampleNow and ?ac1.0 = AC_A
                 and ?now2.0 = exampleNow and ?ac2.0 = AC_B]
    by (auto simp: exampleRisks exampleStore_arrays spec_newRisks_def spec_improvement_def)
  then show ?thesis using o fe r exampleStore_arrays(3,4) by simp
qed

text \<open>
  C10. The improvement is never below zero, and it is above zero exactly when one
  aircraft has both the higher base risk and the larger load. When the two base risks
  are numbers (then they are clamped to [0, 1]) the improvement is a number that is at
  least zero, and it is zero when neither branch of the rescoring applies.
\<close>

theorem optimizeTailSwap_improvement_sign:
  assumes "legs1 < nextRef st" "legs2 < nextRef st"
  shows "\<exists>sc st'. optimizeTailSwap js now1 now2 st ac1 legs1 ac2 legs2 = Inr (sc, st') \<and>
     (let baseRiskA = calculateMaintenanceRisk js now1 ac1;
          baseRiskB = calculateMaintenanceRisk js now2 ac2;
          loadA = length (arrays st legs1);
          loadB = length (arrays st legs2);
          rescored = ((jgt baseRiskA baseRiskB \<and> loadA > loadB) \<or>
                      (jgt baseRiskB baseRiskA \<and> loadB > loadA))
      in \<not> jlt (improvement sc) (Num 0) \<and>
         (jgt (improvement sc) (Num 0) \<longleftrightarrow> rescored) \<and>
         (baseRiskA \<noteq> NaN \<and> baseRiskB \<noteq> NaN \<longrightarrow>
            jge (improvement sc) (Num 0) \<and> (\<not> rescored \<longrightarrow> improvement sc = Num 0)))"
  unfolding optimizeTailSwap_result[OF assms refl refl refl refl refl] Let_def
  using spec_improvement_sign
          [OF calculateMaintenanceRisk_cases calculateMaintenanceRisk_cases refl refl,
           of js now1 ac1 js now2 ac2 "length (arrays st legs1)" "length (arrays st legs2)"]
  by simp

text \<open>
  The mock data (first branch, improvement 14.38), and the same aircraft TC-JNA on
  both sides with equal loads (no branch, improvement 0).
\<close>

theorem optimizeTailSwap_improvement_sign_witness:
  "0 < nextRef exampleStore \<and> 1 < nextRef exampleStore \<and>
   calculateMaintenanceRisk exampleBuiltins exampleNow AC_A \<noteq> NaN \<and>
   calculateMaintenanceRisk exampleBuiltins exampleNow AC_B \<noteq> NaN \<and>
   (\<exists>sc st'. optimizeTailSwap exampleBuiltins exampleNow exampleNow exampleStore AC_A 0 AC_B 1
                = Inr (sc, st') \<and> jgt (improvement sc) (Num 0)) \<and>
   (\<exists>sc st'. optimizeTailSwap exampleBuiltins exampleNow exampleNow exampleStore AC_A 0 AC_A 0
                = Inr (sc, st') \<and> improvement sc = Num 0)"
  using optimizeTailSwap_improvement_sign
          [OF exampleStore_arrays(3,4), of exampleBuiltins exampleNow exampleNow AC_A AC_B]
        optimizeTailSwap_improvement_sign
          [OF exampleStore_arrays(3,3), of exampleBuiltins exampleNow exampleNow AC_A AC_A]
  by (auto simp: Let_def exampleRisks exampleStore_arrays)

subsection \<open>The two classifiers\<close>

text \<open>
  C9. On every score the two classifiers assign the same level, the one of the canonical
  rule: \<open>RiskBadge\<close> renders the upper-case name of that level and
  \<open>calculateRiskLevel\<close> returns its lower-case name. A score is a number: both call
  sites are fed numbers only (\<open>RiskBadge\<close> documents its score as 0 to 1, and
  \<open>calculateRiskLevel\<close> receives a number parsed from JSON).
\<close>

theorem classifiers_agree_on_finite:
  "RiskBadge_riskLabel (Num x) = badgeName (spec_level x) \<and>
   calculateRiskLevel (Num x) = pageName (spec_level x)"
  by (simp add: RiskBadge_riskLabel_def calculateRiskLevel_def spec_level_def)

end
